theory Spec2Isabelle
  imports Complex_Main "HOL-Library.Char_ord" "HOL-Library.List_Lexorder"
begin

section \<open>Values, objects and aborts\<close>

text \<open>
  The interpreter of \<^verbatim>\<open>interpreterv3.py\<close> works on Python objects that have an identity:
  \<^verbatim>\<open>Value\<close> instances are stored in scopes, in object dictionaries and in capture lists, and
  \<^verbatim>\<open>Value.set\<close> overwrites one in place. The model therefore keeps every \<^verbatim>\<open>Value\<close> instance
  in a store of cells and every Python \<^verbatim>\<open>dict\<close> that is the payload of an object value in a
  store of dictionaries; a reference is the index of the object in its store, and creating
  an object appends it to the store.
\<close>

text \<open>Enum \<^verbatim>\<open>Type\<close>; member \<^verbatim>\<open>Type.INT\<close> is \<open>INT_T\<close>, and so on.\<close>

datatype Type = INT_T | BOOL_T | STRING_T | VOID_T | FUNC_T | OBJECT_T

text \<open>
  Modelled from the spec: class \<^verbatim>\<open>FuncInfo\<close> of \<^verbatim>\<open>func_v3.py\<close>, which is not part of the
  sources; the interpreter reads \<^verbatim>\<open>params\<close>, \<^verbatim>\<open>start_ip\<close>
  and \<^verbatim>\<open>captures\<close>. A capture pairs a name with the reference found in a scope
  (\<open>None\<close> for a symbol that was created and never set). A \<^verbatim>\<open>FuncInfo\<close> is never modified
  after its construction, so it is kept by value.
\<close>

record FuncInfo =
  params :: "(string \<times> string) list"
  start_ip :: int
  captures :: "(string \<times> nat option) list"

datatype pyval =
    PyInt int
  | PyBool bool
  | PyStr string
  | PyNone
  | PyFunc FuncInfo
  | PyDict nat

text \<open>Class \<^verbatim>\<open>Value\<close>: field \<^verbatim>\<open>t\<close> is \<open>vtype\<close>, field \<^verbatim>\<open>v\<close> is \<open>vval\<close>.\<close>

record Value =
  vtype :: Type
  vval :: pyval

datatype ErrorType = SYNTAX_ERROR | TYPE_ERROR | NAME_ERROR

datatype PyException =
    IndexError | KeyError | ValueError | ZeroDivisionError | TypeError
  | AttributeError | AssertionError | RecursionError | EOFError | UnknownCommand

text \<open>
  A run ends early in one of two ways: \<^verbatim>\<open>super().error(kind, ...)\<close>, which does not return
  (\<open>Error\<close>), or an uncaught Python exception (\<open>Crash\<close>). \<open>Stuck\<close> marks a state that the
  Python program cannot be in: a reference to an object that was never created, or a
  function value whose payload is not a \<^verbatim>\<open>FuncInfo\<close>.
\<close>

datatype abort = Error ErrorType | Crash PyException | Stuck

section \<open>Python primitives\<close>

definition py_index :: "'a list \<Rightarrow> int \<Rightarrow> abort + 'a" where
  "py_index xs i =
     (if 0 \<le> i \<and> i < int (length xs) then Inr (xs ! nat i)
      else if - int (length xs) \<le> i \<and> i < 0 then Inr (xs ! nat (int (length xs) + i))
      else Inl (Crash IndexError))"

fun split_on :: "char \<Rightarrow> string \<Rightarrow> string list" where
  "split_on c [] = [[]]"
| "split_on c (x # xs) =
     (if x = c then [] # split_on c xs
      else (case split_on c xs of [] \<Rightarrow> [[x]] | w # ws \<Rightarrow> (x # w) # ws))"

definition strip_char :: "char \<Rightarrow> string \<Rightarrow> string" where
  "strip_char c s = rev (dropWhile (\<lambda>x. x = c) (rev (dropWhile (\<lambda>x. x = c) s)))"

definition is_digit :: "char \<Rightarrow> bool" where
  "is_digit c = (c \<in> set ''0123456789'')"

definition isdigit :: "string \<Rightarrow> bool" where
  "isdigit s = (s \<noteq> [] \<and> list_all is_digit s)"

definition is_space :: "char \<Rightarrow> bool" where
  "is_space c = (c \<in> set [CHR '' '', CHR 0x09, CHR 0x0A, CHR 0x0B, CHR 0x0C, CHR 0x0D])"

definition digits_to_int :: "string \<Rightarrow> int" where
  "digits_to_int s = foldl (\<lambda>acc c. 10 * acc + (int (of_char c) - 48)) 0 s"

text \<open>
  \<^verbatim>\<open>int(s)\<close> on a string: surrounding whitespace, an optional sign, then groups of decimal
  digits separated by single underscores; anything else raises \<^verbatim>\<open>ValueError\<close>. Strings are
  sequences of bytes here, so digits outside ASCII are not accepted.
\<close>

definition py_int :: "string \<Rightarrow> abort + int" where
  "py_int s =
     (let s1 = rev (dropWhile is_space (rev (dropWhile is_space s)));
          neg = (s1 \<noteq> [] \<and> hd s1 = CHR ''-'');
          body = (if s1 \<noteq> [] \<and> (hd s1 = CHR ''-'' \<or> hd s1 = CHR ''+'') then tl s1 else s1);
          groups = split_on CHR ''_'' body
      in if list_all isdigit groups
         then Inr ((if neg then - 1 else 1) * digits_to_int (concat groups))
         else Inl (Crash ValueError))"

fun py_contains :: "string \<Rightarrow> string \<Rightarrow> bool" where
  "py_contains x [] = (x = [])"
| "py_contains x (c # cs) = (take (length x) (c # cs) = x \<or> py_contains x cs)"

text \<open>A Python \<^verbatim>\<open>dict\<close> keeps insertion order: \<^verbatim>\<open>d[k] = x\<close> replaces in place or appends.\<close>

fun dict_set :: "'k \<Rightarrow> 'a \<Rightarrow> ('k \<times> 'a) list \<Rightarrow> ('k \<times> 'a) list" where
  "dict_set k x [] = [(k, x)]"
| "dict_set k x (p # ps) = (if fst p = k then (k, x) # ps else p # dict_set k x ps)"

fun nat_digits :: "nat \<Rightarrow> nat \<Rightarrow> string" where
  "nat_digits 0 n = []"
| "nat_digits (Suc f) n =
     (if n < 10 then [char_of (48 + n)] else nat_digits f (n div 10) @ [char_of (48 + n mod 10)])"

definition str_int :: "int \<Rightarrow> string" where
  "str_int i = (if i < 0 then CHR ''-'' # nat_digits (Suc (nat (- i))) (nat (- i))
                else nat_digits (Suc (nat i)) (nat i))"

text \<open>
  \<^verbatim>\<open>str(x)\<close> of a payload. The text Python prints for a dictionary of \<^verbatim>\<open>Value\<close> instances or
  for a \<^verbatim>\<open>FuncInfo\<close> contains memory addresses; the model writes a fixed marker there.
\<close>

fun py_str :: "pyval \<Rightarrow> string" where
  "py_str (PyInt i) = str_int i"
| "py_str (PyBool b) = (if b then ''True'' else ''False'')"
| "py_str (PyStr s) = s"
| "py_str PyNone = ''None''"
| "py_str (PyFunc f) = ''<FuncInfo>''"
| "py_str (PyDict d) = ''<dict>''"

section \<open>Keywords of the language\<close>

text \<open>
  Modelled from the spec: the keyword constants of \<^verbatim>\<open>InterpreterBase\<close> (\<^verbatim>\<open>intbase.py\<close> is not
  part of the sources). The interpreter only compares tokens with them.
\<close>

definition ASSIGN_DEF :: string where "ASSIGN_DEF = ''assign''"
definition FUNCCALL_DEF :: string where "FUNCCALL_DEF = ''funccall''"
definition ENDFUNC_DEF :: string where "ENDFUNC_DEF = ''endfunc''"
definition IF_DEF :: string where "IF_DEF = ''if''"
definition ELSE_DEF :: string where "ELSE_DEF = ''else''"
definition ENDIF_DEF :: string where "ENDIF_DEF = ''endif''"
definition RETURN_DEF :: string where "RETURN_DEF = ''return''"
definition WHILE_DEF :: string where "WHILE_DEF = ''while''"
definition ENDWHILE_DEF :: string where "ENDWHILE_DEF = ''endwhile''"
definition VAR_DEF :: string where "VAR_DEF = ''var''"
definition LAMBDA_DEF :: string where "LAMBDA_DEF = ''lambda''"
definition ENDLAMBDA_DEF :: string where "ENDLAMBDA_DEF = ''endlambda''"
definition PRINT_DEF :: string where "PRINT_DEF = ''print''"
definition INPUT_DEF :: string where "INPUT_DEF = ''input''"
definition STRTOINT_DEF :: string where "STRTOINT_DEF = ''strtoint''"
definition TRUE_DEF :: string where "TRUE_DEF = ''True''"
definition FALSE_DEF :: string where "FALSE_DEF = ''False''"
definition RESULT_DEF :: string where "RESULT_DEF = ''result''"
definition INT_DEF :: string where "INT_DEF = ''int''"
definition STRING_DEF :: string where "STRING_DEF = ''string''"
definition BOOL_DEF :: string where "BOOL_DEF = ''bool''"
definition VOID_DEF :: string where "VOID_DEF = ''void''"
definition FUNC_DEF :: string where "FUNC_DEF = ''func''"
definition OBJECT_DEF :: string where "OBJECT_DEF = ''object''"
definition REFINT_DEF :: string where "REFINT_DEF = ''refint''"
definition REFSTRING_DEF :: string where "REFSTRING_DEF = ''refstring''"
definition REFBOOL_DEF :: string where "REFBOOL_DEF = ''refbool''"

section \<open>The interpreter state\<close>

text \<open>
  One record holds the attributes of the \<^verbatim>\<open>Interpreter\<close> instance and the objects it can
  reach. Stacks have their top at the head of the list: \<open>return_stack\<close>, the frames of
  \<open>environment\<close> and the block scopes of a frame.

  \<open>return_types\<close> and \<open>func_cache\<close> are the two tables of the function manager
  (\<^verbatim>\<open>func_v3.py\<close>), \<open>environment\<close> is the scope stack of the environment manager
  (\<^verbatim>\<open>env_v3.py\<close>); neither file is part of the sources.
\<close>

type_synonym scope = "(string \<times> nat option) list"

record interp =
  tokenized_program :: "string list list"
  indents :: "nat list"
  return_types :: "string list"
  func_cache :: "(string \<times> FuncInfo) list"
  cells :: "Value list"
  dicts :: "(string \<times> nat) list list"
  environment :: "scope list list"
  return_stack :: "int list"
  ip :: int
  terminate :: bool
  output_lines :: "string list"
  input_lines :: "string list"

definition new_value :: "Value \<Rightarrow> interp \<Rightarrow> nat \<times> interp" where
  "new_value x s = (length (cells s), s\<lparr>cells := cells s @ [x]\<rparr>)"

definition new_dict :: "(string \<times> nat) list \<Rightarrow> interp \<Rightarrow> nat \<times> interp" where
  "new_dict d s = (length (dicts s), s\<lparr>dicts := dicts s @ [d]\<rparr>)"

definition read_cell :: "interp \<Rightarrow> nat \<Rightarrow> abort + Value" where
  "read_cell s a = (if a < length (cells s) then Inr (cells s ! a) else Inl Stuck)"

definition read_dict :: "interp \<Rightarrow> nat \<Rightarrow> abort + (string \<times> nat) list" where
  "read_dict s d = (if d < length (dicts s) then Inr (dicts s ! d) else Inl Stuck)"

text \<open>\<^verbatim>\<open>Value.set(other)\<close>: copy both fields of \<^verbatim>\<open>other\<close> into the receiver, in place.\<close>

definition value_set :: "nat \<Rightarrow> nat \<Rightarrow> interp \<Rightarrow> abort + interp" where
  "value_set a other s =
     (if a < length (cells s) \<and> other < length (cells s)
      then Inr (s\<lparr>cells := (cells s)[a := cells s ! other]\<rparr>)
      else Inl Stuck)"

text \<open>\<^verbatim>\<open>copy.copy(value)\<close>: a new \<^verbatim>\<open>Value\<close> with the same two fields (a dictionary stays shared).\<close>

definition copy_value :: "nat \<Rightarrow> interp \<Rightarrow> abort + (nat \<times> interp)" where
  "copy_value a s =
     (case read_cell s a of Inl e \<Rightarrow> Inl e | Inr x \<Rightarrow> Inr (new_value x s))"

section \<open>The scope stack\<close>

text \<open>
  Modelled from the spec: class \<^verbatim>\<open>EnvironmentManager\<close> of \<^verbatim>\<open>env_v3.py\<close>, which is not part of
  the sources. The spec's contract: a stack of call frames, each a stack of block scopes
  mapping a name to a value cell; \<^verbatim>\<open>get\<close> searches the current frame from the innermost
  scope outwards and reports an absent name; \<^verbatim>\<open>create_new_symbol\<close> makes a binding in the
  innermost scope, or in the outermost scope of the frame when asked to, and reports a name
  that scope already has; \<^verbatim>\<open>set\<close> replaces the value of the first binding \<^verbatim>\<open>get\<close> would
  find; \<^verbatim>\<open>import_mappings\<close> stores a set of bindings in the innermost scope; \<^verbatim>\<open>push\<close>/\<^verbatim>\<open>pop\<close>
  add and remove a frame, \<^verbatim>\<open>block_nest\<close>/\<^verbatim>\<open>block_unnest\<close> a block scope. A binding that was
  created and not yet set holds \<open>None\<close>. Reading the top of an empty stack is Python's
  \<^verbatim>\<open>IndexError\<close>.
\<close>

text \<open>Modelled from the spec: the two outcomes \<^verbatim>\<open>SymbolResult.OK\<close> and \<^verbatim>\<open>SymbolResult.ERROR\<close> that the environment manager reports.\<close>

datatype SymbolResult = OK | ERROR

text \<open>Modelled from the spec: the search of one frame, innermost scope first.\<close>

fun scopes_get :: "scope list \<Rightarrow> string \<Rightarrow> nat option" where
  "scopes_get [] x = None"
| "scopes_get (sc # scs) x = (case map_of sc x of Some b \<Rightarrow> b | None \<Rightarrow> scopes_get scs x)"

text \<open>Modelled from the spec: \<^verbatim>\<open>EnvironmentManager.get\<close>, on the current frame.\<close>

definition env_get :: "interp \<Rightarrow> string \<Rightarrow> abort + nat option" where
  "env_get s x =
     (case environment s of [] \<Rightarrow> Inl (Crash IndexError) | fr # frs \<Rightarrow> Inr (scopes_get fr x))"

text \<open>Modelled from the spec: \<^verbatim>\<open>EnvironmentManager.create_new_symbol\<close>.\<close>

definition create_new_symbol :: "string \<Rightarrow> bool \<Rightarrow> interp \<Rightarrow> abort + (SymbolResult \<times> interp)" where
  "create_new_symbol x create_in_top_block s =
     (case environment s of
        [] \<Rightarrow> Inl (Crash IndexError)
      | fr # frs \<Rightarrow>
          if fr = [] then Inl (Crash IndexError)
          else if create_in_top_block then
            (if map_of (last fr) x = None
             then Inr (OK, s\<lparr>environment := (butlast fr @ [last fr @ [(x, None)]]) # frs\<rparr>)
             else Inr (ERROR, s))
          else
            (if map_of (hd fr) x = None
             then Inr (OK, s\<lparr>environment := ((hd fr @ [(x, None)]) # tl fr) # frs\<rparr>)
             else Inr (ERROR, s)))"

text \<open>Modelled from the spec: the replacement of the first binding that the search of a frame finds.\<close>

fun scopes_set :: "string \<Rightarrow> nat option \<Rightarrow> scope list \<Rightarrow> scope list option" where
  "scopes_set x b [] = None"
| "scopes_set x b (sc # scs) =
     (if map_of sc x \<noteq> None then Some (dict_set x b sc # scs)
      else (case scopes_set x b scs of None \<Rightarrow> None | Some scs' \<Rightarrow> Some (sc # scs')))"

text \<open>Modelled from the spec: \<^verbatim>\<open>EnvironmentManager.set\<close>, on the current frame.\<close>

definition env_set :: "string \<Rightarrow> nat \<Rightarrow> interp \<Rightarrow> abort + (SymbolResult \<times> interp)" where
  "env_set x a s =
     (case environment s of
        [] \<Rightarrow> Inl (Crash IndexError)
      | fr # frs \<Rightarrow>
          (case scopes_set x (Some a) fr of
             None \<Rightarrow> Inr (ERROR, s)
           | Some fr' \<Rightarrow> Inr (OK, s\<lparr>environment := fr' # frs\<rparr>)))"

text \<open>Modelled from the spec: \<^verbatim>\<open>EnvironmentManager.import_mappings\<close>, a dictionary update of the innermost scope.\<close>

definition import_mappings :: "scope \<Rightarrow> interp \<Rightarrow> abort + interp" where
  "import_mappings m s =
     (case environment s of
        [] \<Rightarrow> Inl (Crash IndexError)
      | fr # frs \<Rightarrow>
          (case fr of
             [] \<Rightarrow> Inl (Crash IndexError)
           | sc # scs \<Rightarrow>
               Inr (s\<lparr>environment := (foldl (\<lambda>d (k, b). dict_set k b d) sc m # scs) # frs\<rparr>)))"

text \<open>Modelled from the spec: \<^verbatim>\<open>EnvironmentManager.block_nest\<close>.\<close>

definition block_nest :: "interp \<Rightarrow> abort + interp" where
  "block_nest s =
     (case environment s of
        [] \<Rightarrow> Inl (Crash IndexError)
      | fr # frs \<Rightarrow> Inr (s\<lparr>environment := ([] # fr) # frs\<rparr>))"

text \<open>Modelled from the spec: \<^verbatim>\<open>EnvironmentManager.block_unnest\<close>.\<close>

definition block_unnest :: "interp \<Rightarrow> abort + interp" where
  "block_unnest s =
     (case environment s of
        [] \<Rightarrow> Inl (Crash IndexError)
      | fr # frs \<Rightarrow>
          (case fr of
             [] \<Rightarrow> Inl (Crash IndexError)
           | sc # scs \<Rightarrow> Inr (s\<lparr>environment := scs # frs\<rparr>)))"

text \<open>Modelled from the spec: \<^verbatim>\<open>EnvironmentManager.push\<close>, a new frame with one empty scope.\<close>

definition env_push :: "interp \<Rightarrow> interp" where
  "env_push s = s\<lparr>environment := [[]] # environment s\<rparr>"

text \<open>Modelled from the spec: \<^verbatim>\<open>EnvironmentManager.pop\<close>.\<close>

definition env_pop :: "interp \<Rightarrow> abort + interp" where
  "env_pop s =
     (case environment s of
        [] \<Rightarrow> Inl (Crash IndexError)
      | fr # frs \<Rightarrow> Inr (s\<lparr>environment := frs\<rparr>))"

section \<open>The function table\<close>

text \<open>
  Modelled from the spec: class \<^verbatim>\<open>FunctionManager\<close> of \<^verbatim>\<open>func_v3.py\<close>, which is not part of
  the sources. The spec's contract: lookup by name gives a \<^verbatim>\<open>FuncInfo\<close> or nothing;
  \<^verbatim>\<open>create_function\<close> registers a name for an existing \<^verbatim>\<open>FuncInfo\<close>; the declared return type
  of the function or lambda that encloses a statement position is read from a table built
  when the program is loaded; \<^verbatim>\<open>set_lambda\<close> registers a new lambda under the reserved
  name \<^verbatim>\<open>resultf\<close>, with the formal parameters of its header (every argument but the last,
  each \<^verbatim>\<open>name:type\<close>), the line after the header as its first statement, and its captures.
\<close>

text \<open>Modelled from the spec: \<^verbatim>\<open>FunctionManager.get_function_info\<close>.\<close>

definition get_function_info :: "interp \<Rightarrow> string \<Rightarrow> FuncInfo option" where
  "get_function_info s name = map_of (func_cache s) name"

text \<open>Modelled from the spec: \<^verbatim>\<open>FunctionManager.create_function\<close>.\<close>

definition create_function :: "string \<Rightarrow> FuncInfo \<Rightarrow> interp \<Rightarrow> interp" where
  "create_function name f s = s\<lparr>func_cache := dict_set name f (func_cache s)\<rparr>"

text \<open>Modelled from the spec: \<^verbatim>\<open>FunctionManager.get_return_type_for_enclosing_function\<close>, a read of the table of return types.\<close>

definition get_return_type_for_enclosing_function :: "interp \<Rightarrow> int \<Rightarrow> abort + string" where
  "get_return_type_for_enclosing_function s line = py_index (return_types s) line"

text \<open>Modelled from the spec: the formal parameters of a header, each \<^verbatim>\<open>name:type\<close>, as pairs.\<close>

fun to_tuples :: "string list \<Rightarrow> abort + (string \<times> string) list" where
  "to_tuples [] = Inr []"
| "to_tuples (formal # formals) =
     (case split_on CHR '':'' formal of
        name # tname # rest \<Rightarrow>
          (case to_tuples formals of Inl e \<Rightarrow> Inl e | Inr ps \<Rightarrow> Inr ((name, tname) # ps))
      | _ \<Rightarrow> Inl (Crash IndexError))"

text \<open>Modelled from the spec: \<^verbatim>\<open>FunctionManager.set_lambda\<close>.\<close>

definition set_lambda ::
  "string list \<Rightarrow> int \<Rightarrow> (string \<times> nat option) list \<Rightarrow> interp \<Rightarrow> abort + interp" where
  "set_lambda args line caps s =
     (case to_tuples (butlast args) of
        Inl e \<Rightarrow> Inl e
      | Inr ps \<Rightarrow>
          Inr (create_function (RESULT_DEF @ ''f'')
                 \<lparr>params = ps, start_ip = line + 1, captures = caps\<rparr> s))"

section \<open>Type tables and operators\<close>

text \<open>
  \<^verbatim>\<open>_setup_default_values\<close>. The six default \<^verbatim>\<open>Value\<close> instances are the first six cells of
  the store, and the default object's dictionary is dictionary 0; \<open>type_to_default\<close> maps a
  type keyword to the cell of its default.
\<close>

definition default_cells :: "Value list" where
  "default_cells =
     [\<lparr>vtype = INT_T, vval = PyInt 0\<rparr>,
      \<lparr>vtype = STRING_T, vval = PyStr []\<rparr>,
      \<lparr>vtype = BOOL_T, vval = PyBool False\<rparr>,
      \<lparr>vtype = VOID_T, vval = PyNone\<rparr>,
      \<lparr>vtype = FUNC_T, vval = PyFunc \<lparr>params = [], start_ip = - 1, captures = []\<rparr>\<rparr>,
      \<lparr>vtype = OBJECT_T, vval = PyDict 0\<rparr>]"

definition type_to_default :: "(string \<times> nat) list" where
  "type_to_default =
     [(INT_DEF, 0), (STRING_DEF, 1), (BOOL_DEF, 2), (VOID_DEF, 3), (FUNC_DEF, 4), (OBJECT_DEF, 5)]"

definition compatible_types :: "(string \<times> Type) list" where
  "compatible_types =
     [(INT_DEF, INT_T), (STRING_DEF, STRING_T), (BOOL_DEF, BOOL_T), (REFINT_DEF, INT_T),
      (REFSTRING_DEF, STRING_T), (REFBOOL_DEF, BOOL_T), (FUNC_DEF, FUNC_T), (OBJECT_DEF, OBJECT_T)]"

definition reference_types :: "string list" where
  "reference_types = [REFINT_DEF, REFSTRING_DEF, REFBOOL_DEF, OBJECT_DEF]"

definition type_to_result :: "(Type \<times> string) list" where
  "type_to_result = [(INT_T, ''i''), (STRING_T, ''s''), (BOOL_T, ''b''), (FUNC_T, ''f''), (OBJECT_T, ''o'')]"

text \<open>
  \<^verbatim>\<open>_setup_operations\<close>. Each entry of a table is a function of the two operand values that
  builds the result value; \<^verbatim>\<open>//\<close> and \<^verbatim>\<open>%\<close> raise \<^verbatim>\<open>ZeroDivisionError\<close> on a zero divisor.
  An operand whose payload does not have the kind its tag announces makes the Python
  operator raise; the model reports \<^verbatim>\<open>TypeError\<close> there.
\<close>

definition binary_op_list :: "string list" where
  "binary_op_list =
     [''+'', ''-'', ''*'', ''/'', ''%'', ''=='', ''!='', ''<'', ''<='', ''>'', ''>='', ''&'', ''|'']"

definition on_ints :: "(int \<Rightarrow> int \<Rightarrow> abort + Value) \<Rightarrow> Value \<Rightarrow> Value \<Rightarrow> abort + Value" where
  "on_ints f a b =
     (case vval a of
        PyInt x \<Rightarrow> (case vval b of PyInt y \<Rightarrow> f x y | _ \<Rightarrow> Inl (Crash TypeError))
      | _ \<Rightarrow> Inl (Crash TypeError))"

definition on_strs :: "(string \<Rightarrow> string \<Rightarrow> abort + Value) \<Rightarrow> Value \<Rightarrow> Value \<Rightarrow> abort + Value" where
  "on_strs f a b =
     (case vval a of
        PyStr x \<Rightarrow> (case vval b of PyStr y \<Rightarrow> f x y | _ \<Rightarrow> Inl (Crash TypeError))
      | _ \<Rightarrow> Inl (Crash TypeError))"

definition on_bools :: "(bool \<Rightarrow> bool \<Rightarrow> abort + Value) \<Rightarrow> Value \<Rightarrow> Value \<Rightarrow> abort + Value" where
  "on_bools f a b =
     (case vval a of
        PyBool x \<Rightarrow> (case vval b of PyBool y \<Rightarrow> f x y | _ \<Rightarrow> Inl (Crash TypeError))
      | _ \<Rightarrow> Inl (Crash TypeError))"

definition int_ops :: "(string \<times> (Value \<Rightarrow> Value \<Rightarrow> abort + Value)) list" where
  "int_ops =
     [(''+'', on_ints (\<lambda>a b. Inr \<lparr>vtype = INT_T, vval = PyInt (a + b)\<rparr>)),
      (''-'', on_ints (\<lambda>a b. Inr \<lparr>vtype = INT_T, vval = PyInt (a - b)\<rparr>)),
      (''*'', on_ints (\<lambda>a b. Inr \<lparr>vtype = INT_T, vval = PyInt (a * b)\<rparr>)),
      (''/'', on_ints (\<lambda>a b. if b = 0 then Inl (Crash ZeroDivisionError)
                               else Inr \<lparr>vtype = INT_T, vval = PyInt (a div b)\<rparr>)),
      (''%'', on_ints (\<lambda>a b. if b = 0 then Inl (Crash ZeroDivisionError)
                               else Inr \<lparr>vtype = INT_T, vval = PyInt (a mod b)\<rparr>)),
      (''=='', on_ints (\<lambda>a b. Inr \<lparr>vtype = BOOL_T, vval = PyBool (a = b)\<rparr>)),
      (''!='', on_ints (\<lambda>a b. Inr \<lparr>vtype = BOOL_T, vval = PyBool (a \<noteq> b)\<rparr>)),
      (''>'', on_ints (\<lambda>a b. Inr \<lparr>vtype = BOOL_T, vval = PyBool (a > b)\<rparr>)),
      (''<'', on_ints (\<lambda>a b. Inr \<lparr>vtype = BOOL_T, vval = PyBool (a < b)\<rparr>)),
      (''>='', on_ints (\<lambda>a b. Inr \<lparr>vtype = BOOL_T, vval = PyBool (a \<ge> b)\<rparr>)),
      (''<='', on_ints (\<lambda>a b. Inr \<lparr>vtype = BOOL_T, vval = PyBool (a \<le> b)\<rparr>))]"

definition string_ops :: "(string \<times> (Value \<Rightarrow> Value \<Rightarrow> abort + Value)) list" where
  "string_ops =
     [(''+'', on_strs (\<lambda>a b. Inr \<lparr>vtype = STRING_T, vval = PyStr (a @ b)\<rparr>)),
      (''=='', on_strs (\<lambda>a b. Inr \<lparr>vtype = BOOL_T, vval = PyBool (a = b)\<rparr>)),
      (''!='', on_strs (\<lambda>a b. Inr \<lparr>vtype = BOOL_T, vval = PyBool (a \<noteq> b)\<rparr>)),
      (''>'', on_strs (\<lambda>a b. Inr \<lparr>vtype = BOOL_T, vval = PyBool (a > b)\<rparr>)),
      (''<'', on_strs (\<lambda>a b. Inr \<lparr>vtype = BOOL_T, vval = PyBool (a < b)\<rparr>)),
      (''>='', on_strs (\<lambda>a b. Inr \<lparr>vtype = BOOL_T, vval = PyBool (a \<ge> b)\<rparr>)),
      (''<='', on_strs (\<lambda>a b. Inr \<lparr>vtype = BOOL_T, vval = PyBool (a \<le> b)\<rparr>))]"

definition bool_ops :: "(string \<times> (Value \<Rightarrow> Value \<Rightarrow> abort + Value)) list" where
  "bool_ops =
     [(''&'', on_bools (\<lambda>a b. Inr \<lparr>vtype = BOOL_T, vval = PyBool (a \<and> b)\<rparr>)),
      (''=='', on_bools (\<lambda>a b. Inr \<lparr>vtype = BOOL_T, vval = PyBool (a = b)\<rparr>)),
      (''!='', on_bools (\<lambda>a b. Inr \<lparr>vtype = BOOL_T, vval = PyBool (a \<noteq> b)\<rparr>)),
      (''|'', on_bools (\<lambda>a b. Inr \<lparr>vtype = BOOL_T, vval = PyBool (a \<or> b)\<rparr>))]"

definition binary_ops :: "(Type \<times> (string \<times> (Value \<Rightarrow> Value \<Rightarrow> abort + Value)) list) list" where
  "binary_ops = [(INT_T, int_ops), (STRING_T, string_ops), (BOOL_T, bool_ops)]"

section \<open>Operands and expressions\<close>

text \<open>
  Python's test of a payload in \<^verbatim>\<open>if value_type.value():\<close> and the comparison
  \<^verbatim>\<open>value_type.value() == False\<close>.
\<close>

definition truthy :: "interp \<Rightarrow> pyval \<Rightarrow> bool" where
  "truthy s p =
     (case p of
        PyBool b \<Rightarrow> b
      | PyInt i \<Rightarrow> i \<noteq> 0
      | PyStr x \<Rightarrow> x \<noteq> []
      | PyNone \<Rightarrow> False
      | PyFunc f \<Rightarrow> True
      | PyDict d \<Rightarrow> d < length (dicts s) \<and> dicts s ! d \<noteq> [])"

definition equals_False :: "pyval \<Rightarrow> bool" where
  "equals_False p = (case p of PyBool b \<Rightarrow> \<not> b | PyInt i \<Rightarrow> i = 0 | _ \<Rightarrow> False)"


text \<open>
  \<^verbatim>\<open>_get_value\<close>. A literal creates a \<^verbatim>\<open>Value\<close>; a variable or an object field gives the
  \<^verbatim>\<open>Value\<close> instance that the scope or the dictionary holds, not a copy.
\<close>

definition get_value :: "string \<Rightarrow> interp \<Rightarrow> abort + (nat \<times> interp)" where
  "get_value token s =
     (if token = [] then Inl (Error NAME_ERROR)
      else if hd token = CHR 0x22 then
        Inr (new_value \<lparr>vtype = STRING_T, vval = PyStr (strip_char (CHR 0x22) token)\<rparr> s)
      else if isdigit token \<or> hd token = CHR ''-'' then
        (case py_int token of
           Inl e \<Rightarrow> Inl e
         | Inr i \<Rightarrow> Inr (new_value \<lparr>vtype = INT_T, vval = PyInt i\<rparr> s))
      else if token = TRUE_DEF \<or> token = FALSE_DEF then
        Inr (new_value \<lparr>vtype = BOOL_T, vval = PyBool (token = TRUE_DEF)\<rparr> s)
      else if CHR ''.'' \<in> set token then
        (case split_on CHR ''.'' token of
           object # variable # rest \<Rightarrow>
             (case env_get s object of
                Inl e \<Rightarrow> Inl e
              | Inr None \<Rightarrow> Inl (Crash AttributeError)
              | Inr (Some a) \<Rightarrow>
                  (case read_cell s a of
                     Inl e \<Rightarrow> Inl e
                   | Inr x \<Rightarrow>
                       (case vval x of
                          PyNone \<Rightarrow> Inl (Error TYPE_ERROR)
                        | PyDict d \<Rightarrow>
                            (case read_dict s d of
                               Inl e \<Rightarrow> Inl e
                             | Inr object_dict \<Rightarrow>
                                 (case map_of object_dict variable of
                                    Some fa \<Rightarrow> Inr (fa, s)
                                  | None \<Rightarrow> Inl (Error NAME_ERROR)))
                        | PyStr str \<Rightarrow>
                            if py_contains variable str then Inl (Crash TypeError)
                            else Inl (Error NAME_ERROR)
                        | _ \<Rightarrow> Inl (Crash TypeError))))
         | _ \<Rightarrow> Inl (Crash IndexError))
      else
        (case env_get s token of
           Inl e \<Rightarrow> Inl e
         | Inr (Some a) \<Rightarrow> Inr (a, s)
         | Inr None \<Rightarrow>
             (case get_function_info s token of
                Some f \<Rightarrow> Inr (new_value \<lparr>vtype = FUNC_T, vval = PyFunc f\<rparr> s)
              | None \<Rightarrow> Inl (Error NAME_ERROR))))"

text \<open>
  \<^verbatim>\<open>_eval_expression\<close>: one round of the loop over \<^verbatim>\<open>reversed(tokens)\<close>. The stack holds
  references, its top first; \<^verbatim>\<open>stack.pop()\<close> on an empty stack raises \<^verbatim>\<open>IndexError\<close>, and
  \<^verbatim>\<open>self.binary_ops[v1.type()]\<close> raises \<^verbatim>\<open>KeyError\<close> for a type without a table.
\<close>

definition eval_token :: "string \<Rightarrow> nat list \<Rightarrow> interp \<Rightarrow> abort + (nat list \<times> interp)" where
  "eval_token token stack s =
     (if token \<in> set binary_op_list then
        (case stack of
           v1 # v2 # rest \<Rightarrow>
             (case read_cell s v1 of
                Inl e \<Rightarrow> Inl e
              | Inr x1 \<Rightarrow>
                  (case read_cell s v2 of
                     Inl e \<Rightarrow> Inl e
                   | Inr x2 \<Rightarrow>
                       if vtype x1 \<noteq> vtype x2 then Inl (Error TYPE_ERROR)
                       else
                         (case map_of binary_ops (vtype x1) of
                            None \<Rightarrow> Inl (Crash KeyError)
                          | Some operations \<Rightarrow>
                              (case map_of operations token of
                                 None \<Rightarrow> Inl (Error TYPE_ERROR)
                               | Some f \<Rightarrow>
                                   (case f x1 x2 of
                                      Inl e \<Rightarrow> Inl e
                                    | Inr r \<Rightarrow>
                                        Inr (fst (new_value r s) # rest, snd (new_value r s)))))))
         | _ \<Rightarrow> Inl (Crash IndexError))
      else if token = ''!'' then
        (case stack of
           v1 # rest \<Rightarrow>
             (case read_cell s v1 of
                Inl e \<Rightarrow> Inl e
              | Inr x1 \<Rightarrow>
                  if vtype x1 \<noteq> BOOL_T then Inl (Error TYPE_ERROR)
                  else
                    Inr (fst (new_value
                                \<lparr>vtype = BOOL_T, vval = PyBool (\<not> truthy s (vval x1))\<rparr> s) # rest,
                         snd (new_value
                                \<lparr>vtype = BOOL_T, vval = PyBool (\<not> truthy s (vval x1))\<rparr> s)))
         | [] \<Rightarrow> Inl (Crash IndexError))
      else
        (case get_value token s of
           Inl e \<Rightarrow> Inl e
         | Inr (a, s') \<Rightarrow> Inr (a # stack, s')))"

fun eval_loop :: "string list \<Rightarrow> nat list \<Rightarrow> interp \<Rightarrow> abort + (nat list \<times> interp)" where
  "eval_loop [] stack s = Inr (stack, s)"
| "eval_loop (token # tokens) stack s =
     (case eval_token token stack s of
        Inl e \<Rightarrow> Inl e
      | Inr (stack', s') \<Rightarrow> eval_loop tokens stack' s')"

definition eval_expression :: "string list \<Rightarrow> interp \<Rightarrow> abort + (nat \<times> interp)" where
  "eval_expression tokens s =
     (case eval_loop (rev tokens) [] s of
        Inl e \<Rightarrow> Inl e
      | Inr (stack, s') \<Rightarrow>
          if length stack \<noteq> 1 then Inl (Error SYNTAX_ERROR) else Inr (hd stack, s'))"

section \<open>Copies\<close>

text \<open>
  \<^verbatim>\<open>copy.deepcopy\<close> of a \<^verbatim>\<open>Value\<close>. The copy of an object is entered in the memo before its
  parts are copied, so shared and cyclic structures are copied once; the two memo tables
  map old cells and old dictionaries to their copies. Integers, strings, booleans,
  \<^verbatim>\<open>None\<close> and members of an \<^verbatim>\<open>Enum\<close> are not copied. The copy of a \<^verbatim>\<open>FuncInfo\<close> has copies of
  the captured values. Python's \<^verbatim>\<open>deepcopy\<close> is recursive and raises \<^verbatim>\<open>RecursionError\<close> on a
  structure nested too deeply; the first argument of \<open>deepcopy_value\<close> bounds the nesting of
  values. The functions for the parts take the copy of a value as an argument.
\<close>

type_synonym memo = "(nat \<times> nat) list \<times> (nat \<times> nat) list"

type_synonym copier = "nat \<Rightarrow> memo \<Rightarrow> interp \<Rightarrow> abort + (nat \<times> memo \<times> interp)"

fun deepcopy_items ::
  "copier \<Rightarrow> (string \<times> nat) list \<Rightarrow> memo \<Rightarrow> interp
     \<Rightarrow> abort + ((string \<times> nat) list \<times> memo \<times> interp)" where
  "deepcopy_items cp [] m s = Inr ([], m, s)"
| "deepcopy_items cp ((k, a) # rest) m s =
     (case cp a m s of
        Inl e \<Rightarrow> Inl e
      | Inr (a', m', s') \<Rightarrow>
          (case deepcopy_items cp rest m' s' of
             Inl e \<Rightarrow> Inl e
           | Inr (rest', m'', s'') \<Rightarrow> Inr ((k, a') # rest', m'', s'')))"

fun deepcopy_captures ::
  "copier \<Rightarrow> (string \<times> nat option) list \<Rightarrow> memo \<Rightarrow> interp
     \<Rightarrow> abort + ((string \<times> nat option) list \<times> memo \<times> interp)" where
  "deepcopy_captures cp [] m s = Inr ([], m, s)"
| "deepcopy_captures cp ((k, None) # rest) m s =
     (case deepcopy_captures cp rest m s of
        Inl e \<Rightarrow> Inl e
      | Inr (rest', m', s') \<Rightarrow> Inr ((k, None) # rest', m', s'))"
| "deepcopy_captures cp ((k, Some a) # rest) m s =
     (case cp a m s of
        Inl e \<Rightarrow> Inl e
      | Inr (a', m', s') \<Rightarrow>
          (case deepcopy_captures cp rest m' s' of
             Inl e \<Rightarrow> Inl e
           | Inr (rest', m'', s'') \<Rightarrow> Inr ((k, Some a') # rest', m'', s'')))"

definition deepcopy_dict :: "copier \<Rightarrow> nat \<Rightarrow> memo \<Rightarrow> interp \<Rightarrow> abort + (nat \<times> memo \<times> interp)" where
  "deepcopy_dict cp d m s =
     (case map_of (snd m) d of
        Some d' \<Rightarrow> Inr (d', m, s)
      | None \<Rightarrow>
          (case read_dict s d of
             Inl e \<Rightarrow> Inl e
           | Inr object_dict \<Rightarrow>
               (case deepcopy_items cp object_dict (fst m, (d, length (dicts s)) # snd m)
                       (snd (new_dict [] s)) of
                  Inl e \<Rightarrow> Inl e
                | Inr (items', m', s') \<Rightarrow>
                    Inr (length (dicts s), m',
                         s'\<lparr>dicts := (dicts s')[length (dicts s) := items']\<rparr>))))"

definition deepcopy_step :: "copier \<Rightarrow> copier" where
  "deepcopy_step cp a m s =
     (case map_of (fst m) a of
        Some a' \<Rightarrow> Inr (a', m, s)
      | None \<Rightarrow>
          (case read_cell s a of
             Inl e \<Rightarrow> Inl e
           | Inr x \<Rightarrow>
               (case vval x of
                  PyDict d \<Rightarrow>
                    (case deepcopy_dict cp d ((a, length (cells s)) # fst m, snd m)
                            (snd (new_value x s)) of
                       Inl e \<Rightarrow> Inl e
                     | Inr (d', m', s') \<Rightarrow>
                         Inr (length (cells s), m',
                              s'\<lparr>cells := (cells s')[length (cells s) := x\<lparr>vval := PyDict d'\<rparr>]\<rparr>))
                | PyFunc f \<Rightarrow>
                    (case deepcopy_captures cp (captures f)
                            ((a, length (cells s)) # fst m, snd m) (snd (new_value x s)) of
                       Inl e \<Rightarrow> Inl e
                     | Inr (caps', m', s') \<Rightarrow>
                         Inr (length (cells s), m',
                              s'\<lparr>cells := (cells s')[length (cells s) :=
                                     x\<lparr>vval := PyFunc (f\<lparr>captures := caps'\<rparr>)\<rparr>]\<rparr>))
                | _ \<Rightarrow>
                    Inr (length (cells s), ((a, length (cells s)) # fst m, snd m),
                         snd (new_value x s)))))"

primrec deepcopy_value :: "nat \<Rightarrow> copier" where
  "deepcopy_value 0 = (\<lambda>a m s. Inl (Crash RecursionError))"
| "deepcopy_value (Suc n) = deepcopy_step (deepcopy_value n)"

definition copy_depth :: nat where
  "copy_depth = 100"

definition deepcopy :: "nat option \<Rightarrow> interp \<Rightarrow> abort + (nat option \<times> interp)" where
  "deepcopy r s =
     (case r of
        None \<Rightarrow> Inr (None, s)
      | Some a \<Rightarrow>
          (case deepcopy_value copy_depth a ([], []) s of
             Inl e \<Rightarrow> Inl e
           | Inr (a', m, s') \<Rightarrow> Inr (Some a', s')))"

section \<open>Results and assignment to a name\<close>

definition advance_to_next_statement :: "interp \<Rightarrow> interp" where
  "advance_to_next_statement s = s\<lparr>ip := ip s + 1\<rparr>"

text \<open>
  \<^verbatim>\<open>_set_result\<close>: the result variable of the value's type is created in the outermost scope
  of the current frame if that scope does not have it, and is then set to a shallow copy
  of the value.
\<close>

definition set_result :: "nat \<Rightarrow> interp \<Rightarrow> abort + interp" where
  "set_result a s =
     (case read_cell s a of
        Inl e \<Rightarrow> Inl e
      | Inr x \<Rightarrow>
          (case map_of type_to_result (vtype x) of
             None \<Rightarrow> Inl (Crash KeyError)
           | Some suffix \<Rightarrow>
               (case create_new_symbol (RESULT_DEF @ suffix) True s of
                  Inl e \<Rightarrow> Inl e
                | Inr (r, s1) \<Rightarrow>
                    (case copy_value a s1 of
                       Inl e \<Rightarrow> Inl e
                     | Inr (c, s2) \<Rightarrow>
                         (case env_set (RESULT_DEF @ suffix) c s2 of
                            Inl e \<Rightarrow> Inl e
                          | Inr (r', s3) \<Rightarrow> Inr s3)))))"

text \<open>\<^verbatim>\<open>self.func_manager.create_function(name, value.value())\<close> when the value is a function.\<close>

definition register_if_func :: "string \<Rightarrow> Value \<Rightarrow> interp \<Rightarrow> abort + interp" where
  "register_if_func name x s =
     (if vtype x = FUNC_T then
        (case vval x of PyFunc f \<Rightarrow> Inr (create_function name f s) | _ \<Rightarrow> Inl Stuck)
      else Inr s)"

text \<open>
  \<^verbatim>\<open>_set_value\<close>. For a dotted name the value object itself is stored in the dictionary of
  the object, and the object's cell is then overwritten with a new object value holding
  the same dictionary. For a plain name the cell found in the scopes is overwritten in
  place with the two fields of the value.
\<close>

definition set_value :: "string \<Rightarrow> nat \<Rightarrow> interp \<Rightarrow> abort + interp" where
  "set_value varname to_value_type s =
     (case env_get s varname of
        Inl e \<Rightarrow> Inl e
      | Inr value_type \<Rightarrow>
          (case read_cell s to_value_type of
             Inl e \<Rightarrow> Inl e
           | Inr tv \<Rightarrow>
               (case register_if_func varname tv s of
                  Inl e \<Rightarrow> Inl e
                | Inr s1 \<Rightarrow>
                    if CHR ''.'' \<in> set varname then
                      (case split_on CHR ''.'' varname of
                         object # variable # rest \<Rightarrow>
                           (case env_get s1 object of
                              Inl e \<Rightarrow> Inl e
                            | Inr None \<Rightarrow> Inl (Crash AttributeError)
                            | Inr (Some oa) \<Rightarrow>
                                (case read_cell s1 oa of
                                   Inl e \<Rightarrow> Inl e
                                 | Inr ov \<Rightarrow>
                                     (case vval ov of
                                        PyDict d \<Rightarrow>
                                          (case read_dict s1 d of
                                             Inl e \<Rightarrow> Inl e
                                           | Inr object_dict \<Rightarrow>
                                               (case new_value \<lparr>vtype = OBJECT_T, vval = PyDict d\<rparr>
                                                       (s1\<lparr>dicts := (dicts s1)
                                                            [d := dict_set variable to_value_type object_dict]\<rparr>) of
                                                  (a', s2) \<Rightarrow> value_set oa a' s2))
                                      | _ \<Rightarrow> Inl (Crash TypeError))))
                       | _ \<Rightarrow> Inl (Crash IndexError))
                    else
                      (case value_type of
                         None \<Rightarrow> Inl (Error NAME_ERROR)
                       | Some a \<Rightarrow> value_set a to_value_type s1))))"

section \<open>Calls\<close>

text \<open>
  \<^verbatim>\<open>_create_new_environment\<close>. \<open>bind_params\<close> is the loop over
  \<^verbatim>\<open>zip(formal_params.params, args)\<close>, \<open>bind_captures\<close> the loop over the captures; both
  extend the dictionary \<^verbatim>\<open>tmp_mappings\<close>.
\<close>

fun bind_params ::
  "((string \<times> string) \<times> string) list \<Rightarrow> scope \<Rightarrow> interp \<Rightarrow> abort + (scope \<times> interp)" where
  "bind_params [] tmp_mappings s = Inr (tmp_mappings, s)"
| "bind_params (((formal_name, formal_typename), actual) # rest) tmp_mappings s =
     (case get_value actual s of
        Inl e \<Rightarrow> Inl e
      | Inr (arg, s1) \<Rightarrow>
          (case read_cell s1 arg of
             Inl e \<Rightarrow> Inl e
           | Inr x \<Rightarrow>
               (case map_of compatible_types formal_typename of
                  None \<Rightarrow> Inl (Crash KeyError)
                | Some ty \<Rightarrow>
                    if vtype x \<noteq> ty then Inl (Error TYPE_ERROR)
                    else if formal_typename \<in> set reference_types then
                      bind_params rest (dict_set formal_name (Some arg) tmp_mappings) s1
                    else
                      (case register_if_func formal_name x s1 of
                         Inl e \<Rightarrow> Inl e
                       | Inr s2 \<Rightarrow>
                           (case copy_value arg s2 of
                              Inl e \<Rightarrow> Inl e
                            | Inr (c, s3) \<Rightarrow>
                                bind_params rest (dict_set formal_name (Some c) tmp_mappings) s3)))))"

fun bind_captures ::
  "(string \<times> nat option) list \<Rightarrow> scope \<Rightarrow> interp \<Rightarrow> abort + (scope \<times> interp)" where
  "bind_captures [] tmp_mappings s = Inr (tmp_mappings, s)"
| "bind_captures ((varname, val) # rest) tmp_mappings s =
     (case deepcopy val s of
        Inl e \<Rightarrow> Inl e
      | Inr (c, s1) \<Rightarrow> bind_captures rest (dict_set varname c tmp_mappings) s1)"

definition bind_this :: "string \<Rightarrow> scope \<Rightarrow> interp \<Rightarrow> abort + scope" where
  "bind_this funcname tmp_mappings s =
     (if CHR ''.'' \<in> set funcname then
        (case split_on CHR ''.'' funcname of
           [] \<Rightarrow> Inl (Crash IndexError)
         | object # rest \<Rightarrow>
             (case env_get s object of
                Inl e \<Rightarrow> Inl e
              | Inr arg \<Rightarrow> Inr (dict_set ''this'' arg tmp_mappings)))
      else Inr tmp_mappings)"

definition create_new_environment :: "string \<Rightarrow> string list \<Rightarrow> interp \<Rightarrow> abort + interp" where
  "create_new_environment funcname args s =
     (case get_function_info s funcname of
        None \<Rightarrow> Inl (Error NAME_ERROR)
      | Some formal_params \<Rightarrow>
          if length (params formal_params) \<noteq> length args then Inl (Error NAME_ERROR)
          else
            (case bind_params (zip (params formal_params) args) [] s of
               Inl e \<Rightarrow> Inl e
             | Inr (tmp1, s1) \<Rightarrow>
                 (case bind_captures (captures formal_params) tmp1 s1 of
                    Inl e \<Rightarrow> Inl e
                  | Inr (tmp2, s2) \<Rightarrow>
                      (case bind_this funcname tmp2 s2 of
                         Inl e \<Rightarrow> Inl e
                       | Inr tmp3 \<Rightarrow> import_mappings tmp3 (env_push s2)))))"

definition find_first_instruction :: "string \<Rightarrow> interp \<Rightarrow> abort + int" where
  "find_first_instruction funcname s =
     (case get_function_info s funcname of
        Some func_info \<Rightarrow> Inr (start_ip func_info)
      | None \<Rightarrow>
          (case get_value funcname s of
             Inl e \<Rightarrow> Inl e
           | Inr r \<Rightarrow> Inl (Error TYPE_ERROR)))"

section \<open>Built-in calls\<close>

fun print_loop :: "string list \<Rightarrow> string list \<Rightarrow> interp \<Rightarrow> abort + (string list \<times> interp)" where
  "print_loop [] out s = Inr (out, s)"
| "print_loop (arg # args) out s =
     (case get_value arg s of
        Inl e \<Rightarrow> Inl e
      | Inr (a, s1) \<Rightarrow>
          (case read_cell s1 a of
             Inl e \<Rightarrow> Inl e
           | Inr val_type \<Rightarrow> print_loop args (out @ [py_str (vval val_type)]) s1))"

definition print :: "string list \<Rightarrow> interp \<Rightarrow> abort + interp" where
  "print args s =
     (if args = [] then Inl (Error SYNTAX_ERROR)
      else
        (case print_loop args [] s of
           Inl e \<Rightarrow> Inl e
         | Inr (out, s1) \<Rightarrow> Inr (s1\<lparr>output_lines := output_lines s1 @ [concat out]\<rparr>)))"

text \<open>
  Modelled from the spec: \<^verbatim>\<open>get_input\<close> of \<^verbatim>\<open>InterpreterBase\<close> blocks and reads one line of
  input as text. The lines still to be read are \<open>input_lines\<close>; reading when none is left
  is Python's \<^verbatim>\<open>EOFError\<close>.
\<close>

definition get_input :: "interp \<Rightarrow> abort + (string \<times> interp)" where
  "get_input s =
     (case input_lines s of
        [] \<Rightarrow> Inl (Crash EOFError)
      | l # ls \<Rightarrow> Inr (l, s\<lparr>input_lines := ls\<rparr>))"

definition input :: "string list \<Rightarrow> interp \<Rightarrow> abort + interp" where
  "input args s =
     (case (if args \<noteq> [] then print args s else Inr s) of
        Inl e \<Rightarrow> Inl e
      | Inr s1 \<Rightarrow>
          (case get_input s1 of
             Inl e \<Rightarrow> Inl e
           | Inr (result, s2) \<Rightarrow>
               (case new_value \<lparr>vtype = STRING_T, vval = PyStr result\<rparr> s2 of
                  (a, s3) \<Rightarrow> set_result a s3)))"

definition strtoint :: "string list \<Rightarrow> interp \<Rightarrow> abort + interp" where
  "strtoint args s =
     (if length args \<noteq> 1 then Inl (Error SYNTAX_ERROR)
      else
        (case get_value (hd args) s of
           Inl e \<Rightarrow> Inl e
         | Inr (a, s1) \<Rightarrow>
             (case read_cell s1 a of
                Inl e \<Rightarrow> Inl e
              | Inr value_type \<Rightarrow>
                  if vtype value_type \<noteq> STRING_T then Inl (Error TYPE_ERROR)
                  else
                    (case vval value_type of
                       PyStr str \<Rightarrow>
                         (case py_int str of
                            Inl e \<Rightarrow> Inl e
                          | Inr i \<Rightarrow>
                              (case new_value \<lparr>vtype = INT_T, vval = PyInt i\<rparr> s1 of
                                 (r, s2) \<Rightarrow> set_result r s2))
                     | _ \<Rightarrow> Inl (Crash TypeError)))))"

definition funccall :: "string list \<Rightarrow> interp \<Rightarrow> abort + interp" where
  "funccall args s =
     (if args = [] then Inl (Error SYNTAX_ERROR)
      else if hd args = PRINT_DEF then
        (case print (tl args) s of
           Inl e \<Rightarrow> Inl e
         | Inr s1 \<Rightarrow> Inr (advance_to_next_statement s1))
      else if hd args = INPUT_DEF then
        (case input (tl args) s of
           Inl e \<Rightarrow> Inl e
         | Inr s1 \<Rightarrow> Inr (advance_to_next_statement s1))
      else if hd args = STRTOINT_DEF then
        (case strtoint (tl args) s of
           Inl e \<Rightarrow> Inl e
         | Inr s1 \<Rightarrow> Inr (advance_to_next_statement s1))
      else
        (case create_new_environment (hd args) (tl args)
                (s\<lparr>return_stack := (ip s + 1) # return_stack s\<rparr>) of
           Inl e \<Rightarrow> Inl e
         | Inr s1 \<Rightarrow>
             (case find_first_instruction (hd args) s1 of
                Inl e \<Rightarrow> Inl e
              | Inr l \<Rightarrow> Inr (s1\<lparr>ip := l\<rparr>))))"

section \<open>Block matching\<close>

text \<open>
  The scans of \<^verbatim>\<open>_if\<close> and \<^verbatim>\<open>_else\<close> (\<^verbatim>\<open>for line_num in range(self.ip+1, len(...))\<close>). The
  result of \<open>if_scan\<close> is the next instruction pointer and whether a block scope is opened
  (the match was an \<^verbatim>\<open>else\<close>).
\<close>

function if_scan ::
  "string list list \<Rightarrow> nat list \<Rightarrow> int \<Rightarrow> int \<Rightarrow> abort + (int \<times> bool)" where
  "if_scan prog inds cur line_num =
     (if line_num < int (length prog) then
        (case py_index prog line_num of
           Inl e \<Rightarrow> Inl e
         | Inr [] \<Rightarrow> if_scan prog inds cur (line_num + 1)
         | Inr (tok # rest) \<Rightarrow>
             if tok = ENDIF_DEF then
               (case py_index inds cur of
                  Inl e \<Rightarrow> Inl e
                | Inr i0 \<Rightarrow>
                    (case py_index inds line_num of
                       Inl e \<Rightarrow> Inl e
                     | Inr i1 \<Rightarrow>
                         if i0 = i1 then Inr (line_num + 1, False)
                         else if_scan prog inds cur (line_num + 1)))
             else if tok = ELSE_DEF then
               (case py_index inds cur of
                  Inl e \<Rightarrow> Inl e
                | Inr i0 \<Rightarrow>
                    (case py_index inds line_num of
                       Inl e \<Rightarrow> Inl e
                     | Inr i1 \<Rightarrow>
                         if i0 = i1 then Inr (line_num + 1, True)
                         else if_scan prog inds cur (line_num + 1)))
             else if_scan prog inds cur (line_num + 1))
      else Inl (Error SYNTAX_ERROR))"
  by pat_completeness auto
termination
  by (relation "measure (\<lambda>(prog, inds, cur, l). nat (int (length prog) - l))") auto

function else_scan :: "string list list \<Rightarrow> nat list \<Rightarrow> int \<Rightarrow> int \<Rightarrow> abort + int" where
  "else_scan prog inds cur line_num =
     (if line_num < int (length prog) then
        (case py_index prog line_num of
           Inl e \<Rightarrow> Inl e
         | Inr [] \<Rightarrow> else_scan prog inds cur (line_num + 1)
         | Inr (tok # rest) \<Rightarrow>
             if tok = ENDIF_DEF then
               (case py_index inds cur of
                  Inl e \<Rightarrow> Inl e
                | Inr i0 \<Rightarrow>
                    (case py_index inds line_num of
                       Inl e \<Rightarrow> Inl e
                     | Inr i1 \<Rightarrow>
                         if i0 = i1 then Inr (line_num + 1)
                         else else_scan prog inds cur (line_num + 1)))
             else else_scan prog inds cur (line_num + 1))
      else Inl (Error SYNTAX_ERROR))"
  by pat_completeness auto
termination
  by (relation "measure (\<lambda>(prog, inds, cur, l). nat (int (length prog) - l))") auto

text \<open>
  The loops of \<^verbatim>\<open>_exit_while\<close> and \<^verbatim>\<open>_exit_lambda\<close>, which differ in the keyword only, and the
  loop of \<^verbatim>\<open>_endwhile\<close>. \<^verbatim>\<open>self.tokenized_program[cur_line][0]\<close> is evaluated for every line
  the loop reaches and raises \<^verbatim>\<open>IndexError\<close> on a line without tokens. \<open>opener_indent\<close> is
  \<^verbatim>\<open>self.indents[self.ip]\<close>.
\<close>

function exit_scan ::
  "string \<Rightarrow> string list list \<Rightarrow> nat list \<Rightarrow> nat \<Rightarrow> int \<Rightarrow> abort + int" where
  "exit_scan kw prog inds opener_indent cur_line =
     (if cur_line < int (length prog) then
        (case py_index prog cur_line of
           Inl e \<Rightarrow> Inl e
         | Inr [] \<Rightarrow> Inl (Crash IndexError)
         | Inr (tok # rest) \<Rightarrow>
             (case py_index inds cur_line of
                Inl e \<Rightarrow> Inl e
              | Inr i1 \<Rightarrow>
                  if tok = kw \<and> i1 = opener_indent then Inr (cur_line + 1)
                  else if i1 < opener_indent then Inl (Error SYNTAX_ERROR)
                  else exit_scan kw prog inds opener_indent (cur_line + 1)))
      else Inl (Error SYNTAX_ERROR))"
  by pat_completeness auto
termination
  by (relation "measure (\<lambda>(kw, prog, inds, oi, l). nat (int (length prog) - l))") auto

function endwhile_scan :: "string list list \<Rightarrow> nat list \<Rightarrow> nat \<Rightarrow> int \<Rightarrow> abort + int" where
  "endwhile_scan prog inds opener_indent cur_line =
     (if cur_line \<ge> 0 then
        (case py_index prog cur_line of
           Inl e \<Rightarrow> Inl e
         | Inr [] \<Rightarrow> Inl (Crash IndexError)
         | Inr (tok # rest) \<Rightarrow>
             (case py_index inds cur_line of
                Inl e \<Rightarrow> Inl e
              | Inr i1 \<Rightarrow>
                  if tok = WHILE_DEF \<and> i1 = opener_indent then Inr cur_line
                  else if i1 < opener_indent then Inl (Error SYNTAX_ERROR)
                  else endwhile_scan prog inds opener_indent (cur_line - 1)))
      else Inl (Error SYNTAX_ERROR))"
  by pat_completeness auto
termination
  by (relation "measure (\<lambda>(prog, inds, oi, l). nat (l + 1))") auto

definition if_stmt :: "string list \<Rightarrow> interp \<Rightarrow> abort + interp" where
  "if_stmt args s =
     (if args = [] then Inl (Error SYNTAX_ERROR)
      else
        (case eval_expression args s of
           Inl e \<Rightarrow> Inl e
         | Inr (a, s1) \<Rightarrow>
             (case read_cell s1 a of
                Inl e \<Rightarrow> Inl e
              | Inr value_type \<Rightarrow>
                  if vtype value_type \<noteq> BOOL_T then Inl (Error TYPE_ERROR)
                  else if truthy s1 (vval value_type) then
                    block_nest (advance_to_next_statement s1)
                  else
                    (case if_scan (tokenized_program s1) (indents s1) (ip s1) (ip s1 + 1) of
                       Inl e \<Rightarrow> Inl e
                     | Inr (l, nest) \<Rightarrow>
                         if nest then block_nest (s1\<lparr>ip := l\<rparr>) else Inr (s1\<lparr>ip := l\<rparr>)))))"

definition endif :: "interp \<Rightarrow> abort + interp" where
  "endif s = block_unnest (advance_to_next_statement s)"

definition else_stmt :: "interp \<Rightarrow> abort + interp" where
  "else_stmt s =
     (case block_unnest s of
        Inl e \<Rightarrow> Inl e
      | Inr s1 \<Rightarrow>
          (case else_scan (tokenized_program s1) (indents s1) (ip s1) (ip s1 + 1) of
             Inl e \<Rightarrow> Inl e
           | Inr l \<Rightarrow> Inr (s1\<lparr>ip := l\<rparr>)))"

definition exit_while :: "interp \<Rightarrow> abort + interp" where
  "exit_while s =
     (case py_index (indents s) (ip s) of
        Inl e \<Rightarrow> Inl e
      | Inr while_indent \<Rightarrow>
          (case exit_scan ENDWHILE_DEF (tokenized_program s) (indents s) while_indent (ip s + 1) of
             Inl e \<Rightarrow> Inl e
           | Inr l \<Rightarrow> Inr (s\<lparr>ip := l\<rparr>)))"

definition while_stmt :: "string list \<Rightarrow> interp \<Rightarrow> abort + interp" where
  "while_stmt args s =
     (if args = [] then Inl (Error SYNTAX_ERROR)
      else
        (case eval_expression args s of
           Inl e \<Rightarrow> Inl e
         | Inr (a, s1) \<Rightarrow>
             (case read_cell s1 a of
                Inl e \<Rightarrow> Inl e
              | Inr value_type \<Rightarrow>
                  if vtype value_type \<noteq> BOOL_T then Inl (Error TYPE_ERROR)
                  else if equals_False (vval value_type) then exit_while s1
                  else block_nest (advance_to_next_statement s1))))"

definition endwhile :: "string list \<Rightarrow> interp \<Rightarrow> abort + interp" where
  "endwhile args s =
     (case block_unnest s of
        Inl e \<Rightarrow> Inl e
      | Inr s1 \<Rightarrow>
          (case py_index (indents s1) (ip s1) of
             Inl e \<Rightarrow> Inl e
           | Inr while_indent \<Rightarrow>
               (case endwhile_scan (tokenized_program s1) (indents s1) while_indent (ip s1 - 1) of
                  Inl e \<Rightarrow> Inl e
                | Inr l \<Rightarrow> Inr (s1\<lparr>ip := l\<rparr>))))"

definition exit_lambda :: "interp \<Rightarrow> abort + interp" where
  "exit_lambda s =
     (case py_index (indents s) (ip s) of
        Inl e \<Rightarrow> Inl e
      | Inr lambda_indent \<Rightarrow>
          (case exit_scan ENDLAMBDA_DEF (tokenized_program s) (indents s) lambda_indent (ip s + 1) of
             Inl e \<Rightarrow> Inl e
           | Inr l \<Rightarrow> Inr (s\<lparr>ip := l\<rparr>)))"

section \<open>Returns\<close>

text \<open>
  The default branch of \<^verbatim>\<open>_endfunc\<close> and \<^verbatim>\<open>_endlambda\<close>: the default value of the declared
  return type becomes the result unless the type is \<^verbatim>\<open>void\<close>.
\<close>

definition set_default_result :: "interp \<Rightarrow> abort + interp" where
  "set_default_result s =
     (case get_return_type_for_enclosing_function s (ip s) of
        Inl e \<Rightarrow> Inl e
      | Inr return_type \<Rightarrow>
          if return_type \<noteq> VOID_DEF then
            (case map_of type_to_default return_type of
               None \<Rightarrow> Inl (Crash KeyError)
             | Some d \<Rightarrow> set_result d s)
          else Inr s)"

text \<open>
  \<^verbatim>\<open>_endfunc\<close> and \<^verbatim>\<open>_endlambda\<close>. The argument is \<^verbatim>\<open>return_val\<close>: \<open>None\<close> for Python's \<^verbatim>\<open>None\<close>,
  \<open>Some a\<close> for a \<^verbatim>\<open>Value\<close> instance. Class \<^verbatim>\<open>Value\<close> defines neither \<^verbatim>\<open>__bool__\<close> nor \<^verbatim>\<open>__len__\<close>,
  so \<^verbatim>\<open>if return_val:\<close> holds for every instance, whatever it wraps.
\<close>

definition endfunc :: "nat option \<Rightarrow> interp \<Rightarrow> abort + interp" where
  "endfunc return_val s =
     (if return_stack s = [] then Inr (s\<lparr>terminate := True\<rparr>)
      else
        (case env_pop s of
           Inl e \<Rightarrow> Inl e
         | Inr s1 \<Rightarrow>
             (case (case return_val of
                      Some a \<Rightarrow> set_result a s1
                    | None \<Rightarrow> set_default_result s1) of
                Inl e \<Rightarrow> Inl e
              | Inr s2 \<Rightarrow>
                  (case return_stack s2 of
                     [] \<Rightarrow> Inl (Crash IndexError)
                   | l # ls \<Rightarrow> Inr (s2\<lparr>ip := l, return_stack := ls\<rparr>)))))"

definition endlambda :: "nat option \<Rightarrow> interp \<Rightarrow> abort + interp" where
  "endlambda return_val s =
     (case env_pop s of
        Inl e \<Rightarrow> Inl e
      | Inr s1 \<Rightarrow>
          (case (case return_val of
                   Some a \<Rightarrow> set_result a s1
                 | None \<Rightarrow> set_default_result s1) of
             Inl e \<Rightarrow> Inl e
           | Inr s2 \<Rightarrow>
               (case return_stack s2 of
                  [] \<Rightarrow> Inl (Crash IndexError)
                | l # ls \<Rightarrow> Inr (s2\<lparr>ip := l, return_stack := ls\<rparr>))))"

datatype terminator = EndFunc | EndLambda

text \<open>The loop of \<^verbatim>\<open>_lambda_or_func\<close>; \<^verbatim>\<open>assert(False)\<close> when it finds no terminator.\<close>

function lambda_or_func_scan :: "string list list \<Rightarrow> int \<Rightarrow> abort + terminator" where
  "lambda_or_func_scan prog cur_line =
     (if cur_line < int (length prog) then
        (case py_index prog cur_line of
           Inl e \<Rightarrow> Inl e
         | Inr [] \<Rightarrow> Inl (Crash IndexError)
         | Inr (tok # rest) \<Rightarrow>
             if tok = ENDFUNC_DEF then Inr EndFunc
             else if tok = ENDLAMBDA_DEF then Inr EndLambda
             else lambda_or_func_scan prog (cur_line + 1))
      else Inl (Crash AssertionError))"
  by pat_completeness auto
termination
  by (relation "measure (\<lambda>(prog, l). nat (int (length prog) - l))") auto

definition lambda_or_func :: "nat option \<Rightarrow> interp \<Rightarrow> abort + interp" where
  "lambda_or_func return_val s =
     (case lambda_or_func_scan (tokenized_program s) (ip s + 1) of
        Inl e \<Rightarrow> Inl e
      | Inr EndFunc \<Rightarrow> endfunc return_val s
      | Inr EndLambda \<Rightarrow> endlambda return_val s)"

definition return :: "string list \<Rightarrow> interp \<Rightarrow> abort + interp" where
  "return args s =
     (case get_return_type_for_enclosing_function s (ip s) of
        Inl e \<Rightarrow> Inl e
      | Inr return_type \<Rightarrow>
          (case map_of type_to_default return_type of
             None \<Rightarrow> Inl (Crash KeyError)
           | Some d \<Rightarrow>
               (case read_cell s d of
                  Inl e \<Rightarrow> Inl e
                | Inr default_value_type \<Rightarrow>
                    if vtype default_value_type = VOID_T then
                      (if args \<noteq> [] then Inl (Error TYPE_ERROR) else lambda_or_func None s)
                    else if args = [] then lambda_or_func None s
                    else
                      (case eval_expression args s of
                         Inl e \<Rightarrow> Inl e
                       | Inr (a, s1) \<Rightarrow>
                           (case read_cell s1 a of
                              Inl e \<Rightarrow> Inl e
                            | Inr value_type \<Rightarrow>
                                if vtype value_type \<noteq> vtype default_value_type
                                then Inl (Error TYPE_ERROR)
                                else lambda_or_func (Some a) s1)))))"

section \<open>Lambdas, declarations, assignment\<close>

text \<open>
  \<^verbatim>\<open>_lambda\<close>. The captures are the items of every scope of the current frame, the outermost
  scope first; each item holds the \<^verbatim>\<open>Value\<close> instance of the scope itself.
\<close>

definition lambda :: "string list \<Rightarrow> interp \<Rightarrow> abort + interp" where
  "lambda args s =
     (case environment s of
        [] \<Rightarrow> Inl (Crash IndexError)
      | nested_envs # frs \<Rightarrow>
          (case set_lambda args (ip s) (concat (rev nested_envs)) s of
             Inl e \<Rightarrow> Inl e
           | Inr s1 \<Rightarrow>
               (case get_function_info s1 (RESULT_DEF @ ''f'') of
                  None \<Rightarrow> Inl Stuck
                | Some func_info \<Rightarrow>
                    (case new_value \<lparr>vtype = FUNC_T, vval = PyFunc func_info\<rparr> s1 of
                       (a, s2) \<Rightarrow>
                         (case set_result a s2 of
                            Inl e \<Rightarrow> Inl e
                          | Inr s3 \<Rightarrow> exit_lambda s3)))))"

fun define_var_loop :: "string \<Rightarrow> string list \<Rightarrow> interp \<Rightarrow> abort + interp" where
  "define_var_loop tname [] s = Inr s"
| "define_var_loop tname (var_name # rest) s =
     (case create_new_symbol var_name False s of
        Inl e \<Rightarrow> Inl e
      | Inr (r, s1) \<Rightarrow>
          if r \<noteq> OK then Inl (Error NAME_ERROR)
          else
            (case map_of type_to_default tname of
               None \<Rightarrow> Inl (Error TYPE_ERROR)
             | Some d \<Rightarrow>
                 (case deepcopy_value copy_depth d ([], []) s1 of
                    Inl e \<Rightarrow> Inl e
                  | Inr (c, m, s2) \<Rightarrow>
                      (case env_set var_name c s2 of
                         Inl e \<Rightarrow> Inl e
                       | Inr (r', s3) \<Rightarrow> define_var_loop tname rest s3))))"

definition define_var :: "string list \<Rightarrow> interp \<Rightarrow> abort + interp" where
  "define_var args s =
     (if length args < 2 then Inl (Error SYNTAX_ERROR)
      else
        (case define_var_loop (hd args) (tl args) s of
           Inl e \<Rightarrow> Inl e
         | Inr s1 \<Rightarrow> Inr (advance_to_next_statement s1)))"

definition assign :: "string list \<Rightarrow> interp \<Rightarrow> abort + interp" where
  "assign tokens s =
     (if length tokens < 2 then Inl (Error SYNTAX_ERROR)
      else
        (case eval_expression (tl tokens) s of
           Inl e \<Rightarrow> Inl e
         | Inr (value_type, s1) \<Rightarrow>
             (case (if CHR ''.'' \<notin> set (hd tokens) then get_value (hd tokens) s1
                    else
                      (case split_on CHR ''.'' (hd tokens) of
                         [] \<Rightarrow> Inl (Crash IndexError)
                       | object # rest \<Rightarrow>
                           (case get_value object s1 of
                              Inl e \<Rightarrow> Inl e
                            | Inr (oa, s2) \<Rightarrow>
                                (case read_cell s2 oa of
                                   Inl e \<Rightarrow> Inl e
                                 | Inr ov \<Rightarrow>
                                     if vtype ov \<noteq> OBJECT_T then Inl (Error TYPE_ERROR)
                                     else Inr (new_value \<lparr>vtype = OBJECT_T, vval = PyNone\<rparr> s2))))) of
                Inl e \<Rightarrow> Inl e
              | Inr (existing_value_type, s3) \<Rightarrow>
                  (case read_cell s3 existing_value_type of
                     Inl e \<Rightarrow> Inl e
                   | Inr ev \<Rightarrow>
                       (case read_cell s3 value_type of
                          Inl e \<Rightarrow> Inl e
                        | Inr nv \<Rightarrow>
                            if vtype ev \<noteq> OBJECT_T \<and> vtype ev \<noteq> vtype nv
                            then Inl (Error TYPE_ERROR)
                            else
                              (case set_value (hd tokens) value_type s3 of
                                 Inl e \<Rightarrow> Inl e
                               | Inr s4 \<Rightarrow> Inr (advance_to_next_statement s4)))))))"

section \<open>The statement dispatcher\<close>

definition blank_line :: "interp \<Rightarrow> interp" where
  "blank_line s = advance_to_next_statement s"

definition process_line :: "interp \<Rightarrow> abort + interp" where
  "process_line s =
     (case py_index (tokenized_program s) (ip s) of
        Inl e \<Rightarrow> Inl e
      | Inr [] \<Rightarrow> Inr (blank_line s)
      | Inr (tok # args) \<Rightarrow>
          if tok = ASSIGN_DEF then assign args s
          else if tok = FUNCCALL_DEF then funccall args s
          else if tok = ENDFUNC_DEF then endfunc None s
          else if tok = IF_DEF then if_stmt args s
          else if tok = ELSE_DEF then else_stmt s
          else if tok = ENDIF_DEF then endif s
          else if tok = RETURN_DEF then return args s
          else if tok = WHILE_DEF then while_stmt args s
          else if tok = ENDWHILE_DEF then endwhile args s
          else if tok = VAR_DEF then define_var args s
          else if tok = LAMBDA_DEF then lambda args s
          else if tok = ENDLAMBDA_DEF then endlambda None s
          else Inl (Crash UnknownCommand))"

text \<open>
  \<^verbatim>\<open>run\<close>. The tokenizer and the constructor of the function manager are not part of the
  sources: the token lists, the table of functions and the table of return types of the
  program are arguments of \<open>start\<close>, with the indentation of every line and the lines of
  input; \<open>boot\<close> is the instance once \<^verbatim>\<open>run\<close> has set its attributes. The main loop \<^verbatim>\<open>while not self.terminate: self._process_line()\<close> need not end;
  \<open>run_loop n\<close> executes at most \<open>n\<close> statements and gives \<open>None\<close> when the loop is still
  running after them.
\<close>

definition boot ::
  "string list list \<Rightarrow> nat list \<Rightarrow> string list \<Rightarrow> (string \<times> FuncInfo) list \<Rightarrow> string list
     \<Rightarrow> int \<Rightarrow> interp" where
  "boot toks inds rtypes funcs inp main_ip =
     \<lparr>tokenized_program = toks, indents = inds, return_types = rtypes,
      func_cache = funcs, cells = default_cells, dicts = [[]],
      environment = [[[]]], return_stack = [], ip = main_ip,
      terminate = False, output_lines = [], input_lines = inp\<rparr>"

definition start ::
  "string list list \<Rightarrow> nat list \<Rightarrow> string list \<Rightarrow> (string \<times> FuncInfo) list \<Rightarrow> string list
     \<Rightarrow> abort + interp" where
  "start toks inds rtypes funcs inp =
     (case map_of funcs ''main'' of
        None \<Rightarrow> Inl (Crash AttributeError)
      | Some main \<Rightarrow> Inr (boot toks inds rtypes funcs inp (start_ip main)))"

fun run_loop :: "nat \<Rightarrow> interp \<Rightarrow> (abort + interp) option" where
  "run_loop 0 s = (if terminate s then Some (Inr s) else None)"
| "run_loop (Suc k) s =
     (if terminate s then Some (Inr s)
      else
        (case process_line s of
           Inl e \<Rightarrow> Some (Inl e)
         | Inr s' \<Rightarrow> run_loop k s'))"

text \<open>\<open>steps n\<close>: the state after \<open>n\<close> statements of the main loop, or after fewer when it ended.\<close>

fun steps :: "nat \<Rightarrow> interp \<Rightarrow> abort + interp" where
  "steps 0 s = Inr s"
| "steps (Suc k) s =
     (if terminate s then Inr s
      else
        (case process_line s of
           Inl e \<Rightarrow> Inl e
         | Inr s' \<Rightarrow> steps k s'))"

definition run ::
  "nat \<Rightarrow> string list list \<Rightarrow> nat list \<Rightarrow> string list \<Rightarrow> (string \<times> FuncInfo) list
     \<Rightarrow> string list \<Rightarrow> (abort + interp) option" where
  "run n toks inds rtypes funcs inp =
     (case start toks inds rtypes funcs inp of
        Inl e \<Rightarrow> Some (Inl e)
      | Inr s \<Rightarrow> run_loop n s)"

section \<open>Relations between states\<close>

text \<open>
  \<open>cells_kept s s'\<close>: every \<^verbatim>\<open>Value\<close> instance of \<open>s\<close> exists in \<open>s'\<close> with the same two fields.
  \<open>only_new_cells s s'\<close>: \<open>s'\<close> is \<open>s\<close> with new \<^verbatim>\<open>Value\<close> instances and nothing else changed.
\<close>

definition cells_kept :: "interp \<Rightarrow> interp \<Rightarrow> bool" where
  "cells_kept s s' \<longleftrightarrow>
     length (cells s) \<le> length (cells s') \<and> take (length (cells s)) (cells s') = cells s"

definition only_new_cells :: "interp \<Rightarrow> interp \<Rightarrow> bool" where
  "only_new_cells s s' \<longleftrightarrow> s' = s\<lparr>cells := cells s'\<rparr> \<and> cells_kept s s'"




section \<open>Example programs\<close>

text \<open>
  Programs and states used to evaluate the interpreter on concrete inputs. A program is
  given by the token lists of its lines, the indentation of each line, the declared
  return type that encloses each line, and the function table.
\<close>

definition main_only :: "(string \<times> FuncInfo) list" where
  "main_only = [(''main'', \<lparr>params = [], start_ip = 1, captures = []\<rparr>)]"


text \<open>
  \<^verbatim>\<open>func main void / var int n / assign n True / endfunc\<close>, and its state after the
  declaration of \<open>n\<close>.
\<close>

definition assign_int_prog :: "string list list" where
  "assign_int_prog =
     [[''func'', ''main'', ''void''], [''var'', ''int'', ''n''], [''assign'', ''n'', ''True''],
      [''endfunc'']]"

definition assign_int_state :: interp where
  "assign_int_state =
     (boot assign_int_prog [0, 2, 2, 0] [''void'', ''void'', ''void'', ''void''] main_only [] 2)
       \<lparr>cells := default_cells @ [\<lparr>vtype = INT_T, vval = PyInt 0\<rparr>],
        environment := [[[(''n'', Some 6)]]]\<rparr>"










text \<open>
  \<^verbatim>\<open>func main void / funccall f / assign resulto.x 5 / funccall f / var object o / endfunc /\<close>
  \<^verbatim>\<open>func f object / endfunc\<close>: the function \<^verbatim>\<open>f\<close> returns the default object twice. The state is
  the one in which the first call of \<^verbatim>\<open>f\<close> reaches its \<^verbatim>\<open>endfunc\<close> (line 7).
\<close>

definition shared_prog :: "string list list" where
  "shared_prog =
     [[''func'', ''main'', ''void''], [''funccall'', ''f''], [''assign'', ''resulto.x'', ''5''],
      [''funccall'', ''f''], [''var'', ''object'', ''o''], [''endfunc''],
      [''func'', ''f'', ''object''], [''endfunc'']]"

definition shared_rtypes :: "string list" where
  "shared_rtypes =
     [''void'', ''void'', ''void'', ''void'', ''void'', ''void'', ''object'', ''object'']"

definition shared_funcs :: "(string \<times> FuncInfo) list" where
  "shared_funcs =
     [(''main'', \<lparr>params = [], start_ip = 1, captures = []\<rparr>),
      (''f'', \<lparr>params = [], start_ip = 7, captures = []\<rparr>)]"

definition shared_state :: interp where
  "shared_state =
     (boot shared_prog [0, 2, 2, 2, 2, 0, 0, 0] shared_rtypes shared_funcs [] 7)
       \<lparr>environment := [[[]], [[]]], return_stack := [2]\<rparr>"

text \<open>
  A \<^verbatim>\<open>main\<close> that returns before a lambda literal:
  \<^verbatim>\<open>func main void / var int x / if == x 0 / return / endif / lambda void / endlambda / endfunc\<close>
  and its state when the \<^verbatim>\<open>return\<close> of line 3 is reached.
\<close>

definition early_return_prog :: "string list list" where
  "early_return_prog =
     [[''func'', ''main'', ''void''], [''var'', ''int'', ''x''], [''if'', ''=='', ''x'', ''0''],
      [''return''], [''endif''], [''lambda'', ''void''], [''endlambda''], [''endfunc'']]"

definition early_return_state :: interp where
  "early_return_state =
     (boot early_return_prog [0, 2, 2, 4, 2, 2, 2, 0] (replicate 8 ''void'') main_only [] 3)
       \<lparr>cells := default_cells @
          [\<lparr>vtype = INT_T, vval = PyInt 0\<rparr>, \<lparr>vtype = INT_T, vval = PyInt 0\<rparr>,
           \<lparr>vtype = BOOL_T, vval = PyBool True\<rparr>],
        environment := [[[], [(''x'', Some 6)]]]\<rparr>"











text \<open>
  A captured variable that is assigned between the creation and the call of the lambda:
  \<^verbatim>\<open>func main void / var int v / lambda void / funccall print v / endlambda / assign v 7 /\<close>
  \<^verbatim>\<open>funccall resultf / endfunc\<close>
\<close>

definition lam_prog :: "string list list" where
  "lam_prog =
     [[''func'', ''main'', ''void''], [''var'', ''int'', ''v''], [''lambda'', ''void''],
      [''funccall'', ''print'', ''v''], [''endlambda''], [''assign'', ''v'', ''7''],
      [''funccall'', ''resultf''], [''endfunc'']]"

definition lam_indents :: "nat list" where
  "lam_indents = [0, 2, 2, 4, 2, 2, 2, 0]"








section \<open>Facts about the primitives\<close>

lemma eval_loop_append:
  "eval_loop (xs @ ys) stack s =
     (case eval_loop xs stack s of
        Inl e \<Rightarrow> Inl e
      | Inr (stack', s') \<Rightarrow> eval_loop ys stack' s')"
  by (induction xs arbitrary: stack s) (auto split: sum.splits)

lemmas keyword_defs =
  ASSIGN_DEF_def FUNCCALL_DEF_def ENDFUNC_DEF_def IF_DEF_def ELSE_DEF_def ENDIF_DEF_def
  RETURN_DEF_def WHILE_DEF_def ENDWHILE_DEF_def VAR_DEF_def LAMBDA_DEF_def ENDLAMBDA_DEF_def
  PRINT_DEF_def INPUT_DEF_def STRTOINT_DEF_def TRUE_DEF_def FALSE_DEF_def RESULT_DEF_def
  INT_DEF_def STRING_DEF_def BOOL_DEF_def VOID_DEF_def FUNC_DEF_def OBJECT_DEF_def
  REFINT_DEF_def REFSTRING_DEF_def REFBOOL_DEF_def

lemmas eval_simps =
  eval_expression_def eval_token_def get_value_def binary_op_list_def new_value_def
  read_cell_def py_int_def isdigit_def is_digit_def is_space_def digits_to_int_def
  binary_ops_def int_ops_def on_ints_def default_cells_def boot_def




















lemma map_of_dict_set_same: "map_of (dict_set k x d) k = Some x"
  by (induction d) auto


lemma scopes_set_found:
  "\<exists>sc \<in> set fr. map_of sc x \<noteq> None \<Longrightarrow>
     \<exists>fr'. scopes_set x b fr = Some fr' \<and> scopes_get fr' x = b"
proof (induction fr)
  case Nil
  then show ?case by simp
next
  case (Cons sc fr)
  show ?case
  proof (cases "map_of sc x = None")
    case True
    with Cons.prems have "\<exists>sc \<in> set fr. map_of sc x \<noteq> None" by auto
    then obtain fr' where "scopes_set x b fr = Some fr'" "scopes_get fr' x = b"
      using Cons.IH by blast
    with True show ?thesis by simp
  next
    case False
    then show ?thesis by (auto simp: map_of_dict_set_same)
  qed
qed

lemma set_result_binds:
  assumes a: "a < length (cells s)"
    and suffix: "map_of type_to_result (vtype (cells s ! a)) = Some suffix"
    and env: "environment s = fr # frs" and fr: "fr \<noteq> []"
  shows "\<exists>fr'. set_result a s =
             Inr (s\<lparr>cells := cells s @ [cells s ! a], environment := fr' # frs\<rparr>)
           \<and> scopes_get fr' (RESULT_DEF @ suffix) = Some (length (cells s))"
proof -
  let ?rv = "RESULT_DEF @ suffix"
  obtain fr1 where c: "create_new_symbol ?rv True s = Inr (OK, s\<lparr>environment := fr1 # frs\<rparr>)
        \<or> create_new_symbol ?rv True s = Inr (ERROR, s\<lparr>environment := fr1 # frs\<rparr>)"
    and has: "\<exists>sc \<in> set fr1. map_of sc ?rv \<noteq> None"
  proof (cases "map_of (last fr) ?rv = None")
    case True
    let ?fr1 = "butlast fr @ [last fr @ [(?rv, None)]]"
    have "create_new_symbol ?rv True s = Inr (OK, s\<lparr>environment := ?fr1 # frs\<rparr>)"
      using env fr True by (simp add: create_new_symbol_def)
    moreover have "\<exists>sc \<in> set ?fr1. map_of sc ?rv \<noteq> None"
      using True by (auto simp: map_of_append)
    ultimately show ?thesis using that by blast
  next
    case False
    have "create_new_symbol ?rv True s = Inr (ERROR, s\<lparr>environment := fr # frs\<rparr>)"
      using env fr False by (simp add: create_new_symbol_def)
    moreover have "\<exists>sc \<in> set fr. map_of sc ?rv \<noteq> None"
      using False fr last_in_set by blast
    ultimately show ?thesis using that by blast
  qed
  from scopes_set_found [OF has, of "Some (length (cells s))"]
  obtain fr' where ss: "scopes_set ?rv (Some (length (cells s))) fr1 = Some fr'"
    and sg: "scopes_get fr' ?rv = Some (length (cells s))" by blast
  have "set_result a s = Inr (s\<lparr>cells := cells s @ [cells s ! a], environment := fr' # frs\<rparr>)"
    using c a suffix ss
    by (auto simp: set_result_def read_cell_def copy_value_def new_value_def env_set_def)
  with sg show ?thesis by blast
qed

lemma only_new_cells_eq: "only_new_cells s s' \<Longrightarrow> s' = s\<lparr>cells := cells s'\<rparr>"
  by (simp add: only_new_cells_def)

declare lambda_or_func_scan.simps [simp del] if_scan.simps [simp del] else_scan.simps [simp del]
  exit_scan.simps [simp del] endwhile_scan.simps [simp del]


















































section \<open>The claims\<close>

subsection \<open>Integer division and modulo\<close>

text \<open>
  Claim C1. For Int operands \<open>a\<close> and \<open>b\<close> with \<open>b\<close> nonzero, the operator \<^verbatim>\<open>/\<close> of the
  evaluator yields the floor of \<open>a / b\<close> (rounding toward negative infinity) and the
  operator \<^verbatim>\<open>%\<close> yields the remainder \<open>r\<close> of that floor division: \<open>a = b * floor (a / b) + r\<close>,
  \<open>r\<close> is smaller than \<open>b\<close> in absolute value and, when the division is not exact, has the
  sign of the divisor. The first value popped from the stack is the left operand.
\<close>

theorem C1_floor_division_and_modulo:
  assumes "v1 < length (cells s)" and "v2 < length (cells s)"
    and "cells s ! v1 = \<lparr>vtype = INT_T, vval = PyInt a\<rparr>"
    and "cells s ! v2 = \<lparr>vtype = INT_T, vval = PyInt b\<rparr>"
    and "b \<noteq> 0"
  shows "eval_token ''/'' (v1 # v2 # rest) s =
           Inr (length (cells s) # rest,
                s\<lparr>cells := cells s @
                  [\<lparr>vtype = INT_T, vval = PyInt \<lfloor>real_of_int a / real_of_int b\<rfloor>\<rparr>]\<rparr>)
       \<and> (\<exists>r. eval_token ''%'' (v1 # v2 # rest) s =
                 Inr (length (cells s) # rest,
                      s\<lparr>cells := cells s @ [\<lparr>vtype = INT_T, vval = PyInt r\<rparr>]\<rparr>)
              \<and> a = b * \<lfloor>real_of_int a / real_of_int b\<rfloor> + r
              \<and> \<bar>r\<bar> < \<bar>b\<bar>
              \<and> (r \<noteq> 0 \<longrightarrow> sgn r = sgn b))"
proof -
  have fl: "\<lfloor>real_of_int a / real_of_int b\<rfloor> = a div b"
    by (rule floor_divide_of_int_eq)
  have d: "eval_token ''/'' (v1 # v2 # rest) s =
           Inr (length (cells s) # rest,
                s\<lparr>cells := cells s @ [\<lparr>vtype = INT_T, vval = PyInt (a div b)\<rparr>]\<rparr>)"
    using assms
    by (simp add: eval_token_def binary_op_list_def read_cell_def binary_ops_def int_ops_def
          on_ints_def new_value_def)
  have m: "eval_token ''%'' (v1 # v2 # rest) s =
           Inr (length (cells s) # rest,
                s\<lparr>cells := cells s @ [\<lparr>vtype = INT_T, vval = PyInt (a mod b)\<rparr>]\<rparr>)"
    using assms
    by (simp add: eval_token_def binary_op_list_def read_cell_def binary_ops_def int_ops_def
          on_ints_def new_value_def)
  have b1: "\<bar>a mod b\<bar> < \<bar>b\<bar>"
    using \<open>b \<noteq> 0\<close> by (simp add: abs_mod_less)
  have b2: "a mod b \<noteq> 0 \<longrightarrow> sgn (a mod b) = sgn b"
  proof
    assume nz: "a mod b \<noteq> 0"
    show "sgn (a mod b) = sgn b"
    proof (cases "0 < b")
      case True
      then have "0 \<le> a mod b" by (rule pos_mod_sign)
      with nz have "0 < a mod b" by linarith
      then have "sgn (a mod b) = 1" by (rule sgn_pos)
      moreover from True have "sgn b = 1" by (rule sgn_pos)
      ultimately show ?thesis by (rule trans [OF _ sym])
    next
      case False
      with \<open>b \<noteq> 0\<close> have neg: "b < 0" by linarith
      then have "a mod b \<le> 0" by (rule neg_mod_sign)
      with nz have "a mod b < 0" by linarith
      then have "sgn (a mod b) = - 1" by (rule sgn_neg)
      moreover from neg have "sgn b = - 1" by (rule sgn_neg)
      ultimately show ?thesis by (rule trans [OF _ sym])
    qed
  qed
  have b3: "a = b * (a div b) + a mod b" by simp
  show ?thesis using d m b1 b2 b3 fl by auto
qed

text \<open>
  The spec's example \<^verbatim>\<open>/ -7 2\<close>: with the cells of \<open>2\<close> and \<open>-7\<close> on the stack (created in
  that order, right to left), the quotient is \<open>-4\<close> and the remainder \<open>1\<close>.
\<close>

theorem C1_floor_division_and_modulo_witness:
  "eval_token ''/'' [7, 6]
     ((boot [] [] [] [] [] 0)\<lparr>cells := default_cells @
        [\<lparr>vtype = INT_T, vval = PyInt 2\<rparr>, \<lparr>vtype = INT_T, vval = PyInt (- 7)\<rparr>]\<rparr>) =
   Inr ([8], (boot [] [] [] [] [] 0)\<lparr>cells := default_cells @
        [\<lparr>vtype = INT_T, vval = PyInt 2\<rparr>, \<lparr>vtype = INT_T, vval = PyInt (- 7)\<rparr>,
         \<lparr>vtype = INT_T, vval = PyInt (- 4)\<rparr>]\<rparr>)"
  using C1_floor_division_and_modulo [of 7 "(boot [] [] [] [] [] 0)\<lparr>cells := default_cells @
      [\<lparr>vtype = INT_T, vval = PyInt 2\<rparr>, \<lparr>vtype = INT_T, vval = PyInt (- 7)\<rparr>]\<rparr>" 6 "- 7" 2 "[]"]
  by (simp add: boot_def default_cells_def)

subsection \<open>The final stack of an expression\<close>

text \<open>
  Claim C8. The evaluator consumes the tokens of a prefix expression from right to left
  with a stack: the leftmost token is applied to the stack that the tokens to its right
  leave. When all tokens have been consumed, the expression's result is the single value
  on the stack, and the run aborts with a syntax error when the stack does not hold
  exactly one value.
\<close>

theorem C8_final_stack_size:
  "eval_loop (rev (tok # toks)) stack0 s =
     (case eval_loop (rev toks) stack0 s of
        Inl e \<Rightarrow> Inl e
      | Inr (st, s1) \<Rightarrow> eval_token tok st s1)
   \<and> (\<forall>stack s'. eval_loop (rev tokens) [] s = Inr (stack, s') \<longrightarrow>
         eval_expression tokens s =
           (if length stack = 1 then Inr (hd stack, s') else Inl (Error SYNTAX_ERROR)))"
  by (auto simp: eval_loop_append eval_expression_def split: sum.splits)

text \<open>
  Two expressions: \<^verbatim>\<open>5 3\<close> leaves two values and is a syntax error; \<^verbatim>\<open>+ 5 3\<close> leaves one,
  the Int 8.
\<close>

theorem C8_final_stack_size_witness:
  "eval_expression [''5'', ''3''] (boot [] [] [] [] [] 0) = Inl (Error SYNTAX_ERROR)
   \<and> eval_expression [''+'', ''5'', ''3''] (boot [] [] [] [] [] 0) =
       Inr (8, (boot [] [] [] [] [] 0)\<lparr>cells := default_cells @
         [\<lparr>vtype = INT_T, vval = PyInt 3\<rparr>, \<lparr>vtype = INT_T, vval = PyInt 5\<rparr>,
          \<lparr>vtype = INT_T, vval = PyInt 8\<rparr>]\<rparr>)"
proof -
  have a: "eval_loop (rev [''5'', ''3'']) [] (boot [] [] [] [] [] 0) =
      Inr ([7, 6], (boot [] [] [] [] [] 0)\<lparr>cells := default_cells @
         [\<lparr>vtype = INT_T, vval = PyInt 3\<rparr>, \<lparr>vtype = INT_T, vval = PyInt 5\<rparr>]\<rparr>)"
    by (simp add: eval_simps)
  have b: "eval_loop (rev [''+'', ''5'', ''3'']) [] (boot [] [] [] [] [] 0) =
      Inr ([8], (boot [] [] [] [] [] 0)\<lparr>cells := default_cells @
         [\<lparr>vtype = INT_T, vval = PyInt 3\<rparr>, \<lparr>vtype = INT_T, vval = PyInt 5\<rparr>,
          \<lparr>vtype = INT_T, vval = PyInt 8\<rparr>]\<rparr>)"
    by (simp add: eval_simps)
  from a b
    C8_final_stack_size [of undefined "[]" "[]" "boot [] [] [] [] [] 0" "[''5'', ''3'']"]
    C8_final_stack_size [of undefined "[]" "[]" "boot [] [] [] [] [] 0" "[''+'', ''5'', ''3'']"]
  show ?thesis by simp
qed

subsection \<open>Assignment of a value of another type\<close>



text \<open>
  The program \<^verbatim>\<open>var int n / assign n True\<close>: the state after the declaration is
  \<open>assign_int_state\<close>, and the assignment aborts with a type error.
\<close>

lemma assign_int_state_reached:
  "steps 1 (boot assign_int_prog [0, 2, 2, 0] [''void'', ''void'', ''void'', ''void''] main_only [] 1)
     = Inr assign_int_state"
  by code_simp


subsection \<open>Block-terminator scans\<close>




subsection \<open>Errors of a call\<close>




subsection \<open>Returning a value that Python counts as false\<close>



subsection \<open>The default object is shared\<close>

text \<open>
  Claim C10. When a function whose declared return type is \<^verbatim>\<open>object\<close> reaches its \<^verbatim>\<open>endfunc\<close>
  without a return value, inside a call, the caller's \<^verbatim>\<open>resulto\<close> is bound to a new value
  that holds dictionary 0, the dictionary of the interpreter's stored default object
  (cell 5): the copy made by \<^verbatim>\<open>_set_result\<close> is shallow. And there is a program,
  \<open>shared_prog\<close>, in which a field assigned through \<^verbatim>\<open>resulto\<close> after such a call is present
  afterwards in the default itself: \<^verbatim>\<open>assign resulto.x 5\<close> stores \<open>x\<close> in dictionary 0; the
  second default return binds \<^verbatim>\<open>resulto\<close> to cell 10, which holds dictionary 0 with \<open>x\<close>; and
  the variable \<open>o\<close> declared next (cell 11), a deep copy of the default, has its own
  dictionary 1 with a field \<open>x\<close> too.
\<close>

theorem C10_default_object_shared:
  assumes stack: "return_stack s = l # ls"
    and env: "environment s = callee # caller # frs" and caller: "caller \<noteq> []"
    and rt: "get_return_type_for_enclosing_function s (ip s) = Inr OBJECT_DEF"
    and dlen: "5 < length (cells s)"
    and dflt: "cells s ! 5 = \<lparr>vtype = OBJECT_T, vval = PyDict 0\<rparr>"
  shows "(\<exists>caller'.
            endfunc None s =
              Inr (s\<lparr>cells := cells s @ [\<lparr>vtype = OBJECT_T, vval = PyDict 0\<rparr>],
                     environment := caller' # frs, ip := l, return_stack := ls\<rparr>)
          \<and> scopes_get caller' ''resulto'' = Some (length (cells s)))
       \<and> run 7 shared_prog [0, 2, 2, 2, 2, 0, 0, 0] shared_rtypes shared_funcs [] =
           Some (Inr ((boot shared_prog [0, 2, 2, 2, 2, 0, 0, 0] shared_rtypes shared_funcs [] 5)
                       \<lparr>cells := default_cells @
                          [\<lparr>vtype = OBJECT_T, vval = PyDict 0\<rparr>,
                           \<lparr>vtype = INT_T, vval = PyInt 5\<rparr>,
                           \<lparr>vtype = OBJECT_T, vval = PyNone\<rparr>,
                           \<lparr>vtype = OBJECT_T, vval = PyDict 0\<rparr>,
                           \<lparr>vtype = OBJECT_T, vval = PyDict 0\<rparr>,
                           \<lparr>vtype = OBJECT_T, vval = PyDict 1\<rparr>,
                           \<lparr>vtype = INT_T, vval = PyInt 5\<rparr>],
                        dicts := [[(''x'', 7)], [(''x'', 12)]],
                        environment := [[[(''resulto'', Some 10), (''o'', Some 11)]]],
                        terminate := True\<rparr>))"
proof -
  let ?p = "s\<lparr>environment := caller # frs\<rparr>"
  have pop: "env_pop s = Inr ?p" by (simp add: env_pop_def env)
  have suffix: "map_of type_to_result (vtype (cells ?p ! 5)) = Some ''o''"
    using dflt by (simp add: type_to_result_def)
  have "\<exists>fr'. set_result 5 ?p =
            Inr (?p\<lparr>cells := cells ?p @ [cells ?p ! 5], environment := fr' # frs\<rparr>)
          \<and> scopes_get fr' (RESULT_DEF @ ''o'') = Some (length (cells ?p))"
  proof (rule set_result_binds)
    show "5 < length (cells ?p)" using dlen by simp
    show "map_of type_to_result (vtype (cells ?p ! 5)) = Some ''o''" by (rule suffix)
    show "environment ?p = caller # frs" by simp
    show "caller \<noteq> []" by (rule caller)
  qed
  then obtain caller' where
    sr: "set_result 5 ?p =
           Inr (s\<lparr>cells := cells s @ [\<lparr>vtype = OBJECT_T, vval = PyDict 0\<rparr>],
                  environment := caller' # frs\<rparr>)"
    and sg: "scopes_get caller' ''resulto'' = Some (length (cells s))"
    using dflt by (auto simp: RESULT_DEF_def)
  have "map_of type_to_default OBJECT_DEF = Some 5" "OBJECT_DEF \<noteq> VOID_DEF"
    by (simp_all add: type_to_default_def keyword_defs)
  with rt sr have sd: "set_default_result ?p =
           Inr (s\<lparr>cells := cells s @ [\<lparr>vtype = OBJECT_T, vval = PyDict 0\<rparr>],
                  environment := caller' # frs\<rparr>)"
    by (simp add: set_default_result_def get_return_type_for_enclosing_function_def)
  have "endfunc None s =
          Inr (s\<lparr>cells := cells s @ [\<lparr>vtype = OBJECT_T, vval = PyDict 0\<rparr>],
                 environment := caller' # frs, ip := l, return_stack := ls\<rparr>)"
    unfolding endfunc_def pop using sd stack by simp
  with sg have first: "\<exists>caller'.
            endfunc None s =
              Inr (s\<lparr>cells := cells s @ [\<lparr>vtype = OBJECT_T, vval = PyDict 0\<rparr>],
                     environment := caller' # frs, ip := l, return_stack := ls\<rparr>)
          \<and> scopes_get caller' ''resulto'' = Some (length (cells s))"
    by blast
  have second: "run 7 shared_prog [0, 2, 2, 2, 2, 0, 0, 0] shared_rtypes shared_funcs [] =
           Some (Inr ((boot shared_prog [0, 2, 2, 2, 2, 0, 0, 0] shared_rtypes shared_funcs [] 5)
                       \<lparr>cells := default_cells @
                          [\<lparr>vtype = OBJECT_T, vval = PyDict 0\<rparr>,
                           \<lparr>vtype = INT_T, vval = PyInt 5\<rparr>,
                           \<lparr>vtype = OBJECT_T, vval = PyNone\<rparr>,
                           \<lparr>vtype = OBJECT_T, vval = PyDict 0\<rparr>,
                           \<lparr>vtype = OBJECT_T, vval = PyDict 0\<rparr>,
                           \<lparr>vtype = OBJECT_T, vval = PyDict 1\<rparr>,
                           \<lparr>vtype = INT_T, vval = PyInt 5\<rparr>],
                        dicts := [[(''x'', 7)], [(''x'', 12)]],
                        environment := [[[(''resulto'', Some 10), (''o'', Some 11)]]],
                        terminate := True\<rparr>))"
    by code_simp
  from first second show ?thesis by (rule conjI)
qed

text \<open>
  The first call of \<^verbatim>\<open>f\<close> in \<open>shared_prog\<close>: \<open>shared_state\<close> is the state after
  \<^verbatim>\<open>funccall f\<close>, and its \<^verbatim>\<open>endfunc\<close> binds \<^verbatim>\<open>resulto\<close> to cell 6, which holds dictionary 0.
\<close>

lemma shared_state_reached:
  "steps 1 (boot shared_prog [0, 2, 2, 2, 2, 0, 0, 0] shared_rtypes shared_funcs [] 1) =
     Inr shared_state"
  by code_simp

theorem C10_default_object_shared_witness:
  "\<exists>caller'.
     endfunc None shared_state =
       Inr (shared_state\<lparr>cells := default_cells @ [\<lparr>vtype = OBJECT_T, vval = PyDict 0\<rparr>],
              environment := [caller'], ip := 2, return_stack := []\<rparr>)
     \<and> scopes_get caller' ''resulto'' = Some 6"
proof -
  have stack: "return_stack shared_state = 2 # []"
    and env: "environment shared_state = [[]] # [[]] # []"
    by code_simp+
  have ne: "[[]] \<noteq> ([] :: scope list)" by simp
  have rt: "get_return_type_for_enclosing_function shared_state (ip shared_state) = Inr OBJECT_DEF"
    by code_simp
  have dlen: "5 < length (cells shared_state)"
    and dflt: "cells shared_state ! 5 = \<lparr>vtype = OBJECT_T, vval = PyDict 0\<rparr>"
    by code_simp+
  have c: "cells shared_state = default_cells" by code_simp
  have n: "length (cells shared_state) = 6" by code_simp
  from C10_default_object_shared [OF stack env ne rt dlen dflt]
  obtain caller' where
    "endfunc None shared_state =
       Inr (shared_state\<lparr>cells := cells shared_state @ [\<lparr>vtype = OBJECT_T, vval = PyDict 0\<rparr>],
              environment := caller' # [], ip := 2, return_stack := []\<rparr>)"
    and "scopes_get caller' ''resulto'' = Some (length (cells shared_state))"
    by blast
  then have "endfunc None shared_state =
       Inr (shared_state\<lparr>cells := default_cells @ [\<lparr>vtype = OBJECT_T, vval = PyDict 0\<rparr>],
              environment := [caller'], ip := 2, return_stack := []\<rparr>)
     \<and> scopes_get caller' ''resulto'' = Some 6"
    unfolding n unfolding c by simp
  then show ?thesis by blast
qed

subsection \<open>The termination flag\<close>

text \<open>
  Claim C9 says that the termination flag is set when a return is executed while the call
  stack is empty. In \<open>early_return_prog\<close> the \<^verbatim>\<open>return\<close> of \<^verbatim>\<open>main\<close> (line 3) is executed with an
  empty call stack and the flag unset. \<^verbatim>\<open>_lambda_or_func\<close> takes the first terminator after
  the statement, the \<^verbatim>\<open>endlambda\<close> of the lambda literal that follows in \<^verbatim>\<open>main\<close>, so the return
  is handled by \<^verbatim>\<open>_endlambda\<close>, which pops the frame of \<^verbatim>\<open>main\<close> and then pops the empty call
  stack: the run ends with \<^verbatim>\<open>IndexError\<close> and the flag is never set.
\<close>

theorem C9_return_before_lambda_crashes:
  "steps 2 (boot early_return_prog [0, 2, 2, 4, 2, 2, 2, 0] (replicate 8 ''void'') main_only [] 1)
     = Inr early_return_state
   \<and> py_index (tokenized_program early_return_state) (ip early_return_state) = Inr [''return'']
   \<and> return_stack early_return_state = []
   \<and> terminate early_return_state = False
   \<and> lambda_or_func_scan early_return_prog 4 = Inr EndLambda
   \<and> process_line early_return_state = Inl (Crash IndexError)
   \<and> run 3 early_return_prog [0, 2, 2, 4, 2, 2, 2, 0] (replicate 8 ''void'') main_only [] =
       Some (Inl (Crash IndexError))"
  by code_simp

subsection \<open>Reference and value parameters\<close>




subsection \<open>Captured variables\<close>




lemma lam_prog_output:
  "(case run 7 lam_prog lam_indents (replicate 8 ''void'') main_only [] of
      Some (Inr s) \<Rightarrow> output_lines s | _ \<Rightarrow> []) = [''7'']"
  by code_simp


end
